theory Spec2Isabelle
  imports Main "HOL-Library.Word"
begin

section \<open>Ingestion (parse.py): text extraction\<close>

text \<open>
  A Python \<open>str\<close> read from a file is a sequence of Unicode code points; file contents
  are byte sequences. Paths, extensions, language names and log messages are plain
  strings. A log record is its level and the fixed words of the message with the path
  or selector put in; the text of a caught exception, counts and quotation marks are
  left out.
\<close>

type_synonym byte = "8 word"
type_synonym str = "nat list"

datatype level = DEBUG | INFO | WARNING | ERROR

type_synonym log = "(level \<times> string) list"

datatype exn =
    UnicodeDecodeError
  | OSError
  | FitzFileNotFoundError
  | FitzFileDataError
  | Psycopg2Error
  | AttributeError
  | OtherException

subsection \<open>The two codecs used by \<open>extract_text_from_txt\<close>\<close>

text \<open>
  Strict UTF-8 as Python's \<open>utf-8\<close> codec decodes it: shortest form only, no
  surrogates, nothing above U+10FFFF. \<open>None\<close> stands for \<open>UnicodeDecodeError\<close>.
\<close>

definition cont :: "nat \<Rightarrow> bool" where
  "cont b = (128 \<le> b \<and> b \<le> 191)"

fun utf8_points :: "nat list \<Rightarrow> str option" where
  "utf8_points [] = Some []"
| "utf8_points (b0 # bs) =
     (if b0 < 128 then map_option ((#) b0) (utf8_points bs)
      else if 194 \<le> b0 \<and> b0 \<le> 223 then
        (case bs of
           b1 # r \<Rightarrow>
             if cont b1
             then map_option ((#) ((b0 - 192) * 64 + (b1 - 128))) (utf8_points r)
             else None
         | _ \<Rightarrow> None)
      else if 224 \<le> b0 \<and> b0 \<le> 239 then
        (case bs of
           b1 # b2 # r \<Rightarrow>
             if (if b0 = 224 then 160 else 128) \<le> b1
                \<and> b1 \<le> (if b0 = 237 then 159 else 191) \<and> cont b2
             then map_option
                    ((#) ((b0 - 224) * 4096 + (b1 - 128) * 64 + (b2 - 128)))
                    (utf8_points r)
             else None
         | _ \<Rightarrow> None)
      else if 240 \<le> b0 \<and> b0 \<le> 244 then
        (case bs of
           b1 # b2 # b3 # r \<Rightarrow>
             if (if b0 = 240 then 144 else 128) \<le> b1
                \<and> b1 \<le> (if b0 = 244 then 143 else 191) \<and> cont b2 \<and> cont b3
             then map_option
                    ((#) ((b0 - 240) * 262144 + (b1 - 128) * 4096
                          + (b2 - 128) * 64 + (b3 - 128)))
                    (utf8_points r)
             else None
         | _ \<Rightarrow> None)
      else None)"

definition utf8_decode :: "byte list \<Rightarrow> str option" where
  "utf8_decode bs = utf8_points (map unat bs)"

text \<open>Latin-1 maps every byte to the code point of the same number.\<close>

definition latin1_decode :: "byte list \<Rightarrow> str option" where
  "latin1_decode bs = Some (map unat bs)"

text \<open>
  Files are opened in text mode with the default \<open>newline=None\<close>: on reading,
  \<open>\r\n\<close> and a lone \<open>\r\<close> become \<open>\n\<close>.
\<close>

fun universal_newlines :: "str \<Rightarrow> str" where
  "universal_newlines [] = []"
| "universal_newlines [c] = [if c = 13 then 10 else c]"
| "universal_newlines (c # d # cs) =
     (if c = 13 \<and> d = 10 then 10 # universal_newlines cs
      else if c = 13 then 10 # universal_newlines (d # cs)
      else c # universal_newlines (d # cs))"

subsection \<open>What the file system and the PDF library answer for one path\<close>

text \<open>
  \<open>open(path).read()\<close> either raises an I/O error or delivers the bytes of the file.
  \<open>extract_text_from_txt\<close> opens the file a second time for the fallback, so a path
  has one answer for each of the two opens; for a file that does not change in
  between the two answers are equal. The extractors take these answers (\<open>node\<close>)
  next to the path they are called with.
\<close>

datatype read_outcome = IO_error | Data "byte list"

text \<open>
  A page of an opened PDF: \<open>load_page\<close> followed by \<open>get_text("text")\<close> gives its text
  or raises.
\<close>

datatype page = Page_text str | Page_error

record pdf_doc =
  is_encrypted :: bool
  authenticate_empty :: bool
  pages :: "page list"

datatype pdf_outcome =
    Pdf_not_found
  | Pdf_data_error
  | Pdf_other_error
  | Pdf_doc pdf_doc

record fs_node =
  open_first :: read_outcome
  open_retry :: read_outcome
  fitz_open :: pdf_outcome

subsection \<open>\<open>extract_text_from_txt\<close>, \<open>extract_text_from_md\<close>\<close>

definition open_read :: "read_outcome \<Rightarrow> (byte list \<Rightarrow> str option) \<Rightarrow> exn + str" where
  "open_read answer decode =
     (case answer of
        IO_error \<Rightarrow> Inl OSError
      | Data bs \<Rightarrow>
          (case decode bs of
             None \<Rightarrow> Inl UnicodeDecodeError
           | Some t \<Rightarrow> Inr (universal_newlines t)))"

definition extract_text_from_txt :: "fs_node \<Rightarrow> string \<Rightarrow> str option \<times> log" where
  "extract_text_from_txt node file_path =
     (case open_read (open_first node) utf8_decode of
        Inr t \<Rightarrow> (Some t, [])
      | Inl UnicodeDecodeError \<Rightarrow>
          (case open_read (open_retry node) latin1_decode of
             Inr t \<Rightarrow>
               (Some t,
                [(WARNING, ''UTF-8 decoding failed for '' @ file_path @ ''. Trying latin-1.'')])
           | Inl e \<Rightarrow>
               (None,
                [(WARNING, ''UTF-8 decoding failed for '' @ file_path @ ''. Trying latin-1.''),
                 (ERROR, ''Could not read TXT file '' @ file_path @ '' even with fallback'')]))
      | Inl e \<Rightarrow> (None, [(ERROR, ''Error reading TXT file '' @ file_path)]))"

definition extract_text_from_md :: "fs_node \<Rightarrow> string \<Rightarrow> str option \<times> log" where
  "extract_text_from_md node file_path = extract_text_from_txt node file_path"

subsection \<open>\<open>extract_text_from_pdf\<close>\<close>

text \<open>The page loop, with the accumulator \<open>text\<close> of the source.\<close>

fun read_pages :: "page list \<Rightarrow> str \<Rightarrow> exn + str" where
  "read_pages [] acc = Inr acc"
| "read_pages (Page_error # ps) acc = Inl OtherException"
| "read_pages (Page_text t # ps) acc = read_pages ps (acc @ t)"

definition extract_text_from_pdf :: "fs_node \<Rightarrow> string \<Rightarrow> str option \<times> log" where
  "extract_text_from_pdf node file_path =
     (case fitz_open node of
        Pdf_not_found \<Rightarrow>
          (None, [(ERROR, ''PDF file not found (fitz error): '' @ file_path)])
      | Pdf_data_error \<Rightarrow>
          (None,
           [(ERROR, ''Error processing PDF file (likely corrupted or invalid format) ''
                    @ file_path)])
      | Pdf_other_error \<Rightarrow>
          (None, [(ERROR, ''Unexpected error reading PDF file '' @ file_path)])
      | Pdf_doc doc \<Rightarrow>
          if is_encrypted doc \<and> \<not> authenticate_empty doc
          then (None,
                [(WARNING, ''Skipping password-protected PDF (without password): ''
                           @ file_path)])
          else (case read_pages (pages doc) [] of
                  Inr t \<Rightarrow> (Some t, [])
                | Inl e \<Rightarrow>
                    (None, [(ERROR, ''Unexpected error reading PDF file '' @ file_path)])))"

section \<open>Ingestion (parse.py): the record store\<close>

subsection \<open>The table \<open>extracted_files\<close> and the connection\<close>

text \<open>
  A row holds the three columns the program writes. The columns \<open>id\<close> and
  \<open>processed_at\<close> are filled by the store from a sequence and the clock; no code of the
  repository reads or writes them.
\<close>

record file_row =
  col_file_path :: string
  col_file_extension :: string
  col_content :: str

text \<open>\<open>None\<close>: the relation does not exist yet.\<close>

type_synonym table = "file_row list option"

text \<open>
  A psycopg2 connection without autocommit: the first statement opens a transaction,
  which sees its own writes until \<open>commit\<close> or \<open>rollback\<close>; after a failed statement
  the transaction is aborted and every further statement fails until \<open>rollback\<close>.
\<close>

datatype txn = Idle | InTransaction table | InError

text \<open>
  What goes wrong inside the server or on the wire is not decided by the program: the
  connection carries the outcomes scheduled for the next calls of \<open>execute\<close>, one entry
  per call, \<open>None\<close> (and the exhausted list) meaning that the statement runs normally.
  \<open>Stmt_fails\<close> is a statement rejected by the server or the driver (a value the store
  refuses, a missing column, a timeout); \<open>Conn_lost\<close> breaks the connection for good.
\<close>

datatype fault = Stmt_fails | Conn_lost

datatype statement =
    Create_table_if_not_exists
  | Insert_on_conflict_do_nothing string string str
  | Select_single string string string int
  | Select_both string int
  | Sql_script string

record connection =
  closed :: bool
  txn :: txn
  committed :: table
  script :: "fault option list"
  trace :: "statement list"

definition view :: "connection \<Rightarrow> table" where
  "view c = (case txn c of InTransaction t \<Rightarrow> t | _ \<Rightarrow> committed c)"

definition next_fault :: "connection \<Rightarrow> fault option" where
  "next_fault c = (case script c of [] \<Rightarrow> None | f # _ \<Rightarrow> f)"

text \<open>\<open>conn.cursor()\<close> raises on a closed connection.\<close>

definition cursor :: "connection \<Rightarrow> exn + unit" where
  "cursor c = (if closed c then Inl Psycopg2Error else Inr ())"

text \<open>
  \<open>cur.execute\<close>: the statement is recorded in \<open>trace\<close> and one scheduled outcome is
  used up. \<open>sem\<close> is the meaning of the statement on the table the transaction sees:
  \<open>None\<close> when the server rejects it, otherwise its result and the table afterwards.
\<close>

definition execute ::
  "statement \<Rightarrow> (table \<Rightarrow> ('a \<times> table) option) \<Rightarrow> connection
   \<Rightarrow> (exn + 'a) \<times> connection" where
  "execute stmt sem c =
     (if closed c then (Inl Psycopg2Error, c)
      else
        let c1 = c\<lparr>script := tl (script c), trace := trace c @ [stmt]\<rparr> in
        (case next_fault c of
           Some Conn_lost \<Rightarrow> (Inl Psycopg2Error, c1\<lparr>closed := True, txn := Idle\<rparr>)
         | Some Stmt_fails \<Rightarrow> (Inl Psycopg2Error, c1\<lparr>txn := InError\<rparr>)
         | None \<Rightarrow>
             if txn c = InError then (Inl Psycopg2Error, c1)
             else (case sem (view c) of
                     None \<Rightarrow> (Inl Psycopg2Error, c1\<lparr>txn := InError\<rparr>)
                   | Some (res, t) \<Rightarrow> (Inr res, c1\<lparr>txn := InTransaction t\<rparr>))))"

definition commit :: "connection \<Rightarrow> (exn + unit) \<times> connection" where
  "commit c =
     (if closed c then (Inl Psycopg2Error, c)
      else (Inr (),
            case txn c of
              InTransaction t \<Rightarrow> c\<lparr>committed := t, txn := Idle\<rparr>
            | _ \<Rightarrow> c\<lparr>txn := Idle\<rparr>))"

definition rollback :: "connection \<Rightarrow> (exn + unit) \<times> connection" where
  "rollback c =
     (if closed c then (Inl Psycopg2Error, c)
      else (Inr (), c\<lparr>txn := Idle\<rparr>))"

subsection \<open>\<open>setup_database\<close>\<close>


text \<open>
  The handler of both store operations: log, \<open>conn.rollback()\<close>, return False.
  An exception of \<open>rollback\<close> itself leaves the function.
\<close>

definition rollback_and_fail ::
  "connection \<Rightarrow> string \<Rightarrow> (exn + bool) \<times> connection option \<times> log" where
  "rollback_and_fail c msg =
     (case rollback c of
        (Inl e, c') \<Rightarrow> (Inl e, Some c', [(ERROR, msg)])
      | (Inr _, c') \<Rightarrow> (Inr False, Some c', [(ERROR, msg)]))"


subsection \<open>\<open>insert_file_data\<close>\<close>

text \<open>
  \<open>INSERT ... ON CONFLICT (file_path) DO NOTHING\<close>: the result is the row count of
  the statement, 0 when a row with this path is there already.
\<close>

definition insert_on_conflict_do_nothing ::
  "string \<Rightarrow> string \<Rightarrow> str \<Rightarrow> table \<Rightarrow> (nat \<times> table) option" where
  "insert_on_conflict_do_nothing p e t tbl =
     (case tbl of
        None \<Rightarrow> None
      | Some rows \<Rightarrow>
          if p \<in> set (map col_file_path rows) then Some (0, Some rows)
          else Some (1, Some (rows @
                 [\<lparr>col_file_path = p, col_file_extension = e, col_content = t\<rparr>])))"

definition insert_file_data ::
  "connection option \<Rightarrow> string \<Rightarrow> string \<Rightarrow> str
   \<Rightarrow> (exn + bool) \<times> connection option \<times> log" where
  "insert_file_data conn file_path extension content =
     (case conn of
        None \<Rightarrow>
          (Inr False, None, [(ERROR, ''Cannot insert data: No database connection.'')])
      | Some c \<Rightarrow>
          (case cursor c of
             Inl e \<Rightarrow> rollback_and_fail c (''Error inserting data for '' @ file_path)
           | Inr _ \<Rightarrow>
               (case execute (Insert_on_conflict_do_nothing file_path extension content)
                       (insert_on_conflict_do_nothing file_path extension content) c of
                  (Inl e, c1) \<Rightarrow>
                    rollback_and_fail c1 (''Error inserting data for '' @ file_path)
                | (Inr rowcount, c1) \<Rightarrow>
                    (case commit c1 of
                       (Inl e, c2) \<Rightarrow>
                         rollback_and_fail c2 (''Error inserting data for '' @ file_path)
                     | (Inr _, c2) \<Rightarrow>
                         if rowcount > 0
                         then (Inr True, Some c2,
                               [(DEBUG, ''Successfully inserted data for: '' @ file_path)])
                         else (Inr False, Some c2,
                               [(INFO, ''Skipped duplicate file: '' @ file_path)])))))"

section \<open>Ingestion (parse.py): \<open>process_directory\<close>\<close>

definition SUPPORTED_EXTENSIONS :: "string set" where
  "SUPPORTED_EXTENSIONS = {''.txt'', ''.pdf'', ''.md''}"

text \<open>
  One file met by \<open>os.walk\<close>: \<open>entry_path\<close> is \<open>os.path.join(root, filename)\<close> and
  \<open>entry_ext\<close> is \<open>os.path.splitext(filename)[1].lower()\<close>; \<open>entry_node\<close> is what
  reading the file gives during the run.
\<close>

record dir_entry =
  entry_path :: string
  entry_ext :: string
  entry_node :: fs_node

text \<open>
  The local variables of \<open>process_directory\<close>, with the connection object it was given
  and the log records written so far. The four counters are what the summary prints.
\<close>

record run_state =
  db_conn :: "connection option"
  processed_count :: nat
  skipped_count :: nat
  error_count :: nat
  duplicate_count :: nat
  logged :: log

definition extract_by_extension :: "fs_node \<Rightarrow> string \<Rightarrow> string \<Rightarrow> str option \<times> log" where
  "extract_by_extension node file_path file_ext =
     (if file_ext = ''.txt'' then extract_text_from_txt node file_path
      else if file_ext = ''.md'' then extract_text_from_md node file_path
      else if file_ext = ''.pdf'' then extract_text_from_pdf node file_path
      else (None, []))"

text \<open>The body of the loop, with its \<open>try\<close>/\<open>except Exception\<close>.\<close>

definition process_file :: "dir_entry \<Rightarrow> run_state \<Rightarrow> run_state" where
  "process_file entry st =
     (let file_path = entry_path entry; file_ext = entry_ext entry in
      if file_ext \<in> SUPPORTED_EXTENSIONS then
        (case extract_by_extension (entry_node entry) file_path file_ext of
           (Some content, l) \<Rightarrow>
             (case insert_file_data (db_conn st) file_path file_ext content of
                (Inr True, c, l') \<Rightarrow>
                  st\<lparr>db_conn := c, processed_count := processed_count st + 1,
                     logged := logged st @ (INFO, ''Processing file: '' @ file_path) # l @ l'\<rparr>
              | (Inr False, c, l') \<Rightarrow>
                  st\<lparr>db_conn := c, duplicate_count := duplicate_count st + 1,
                     logged := logged st @ (INFO, ''Processing file: '' @ file_path) # l @ l'\<rparr>
              | (Inl e, c, l') \<Rightarrow>
                  st\<lparr>db_conn := c, error_count := error_count st + 1,
                     logged := logged st @ (INFO, ''Processing file: '' @ file_path) # l @ l'
                       @ [(ERROR, ''Unhandled error processing file '' @ file_path)]\<rparr>)
         | (None, l) \<Rightarrow>
             st\<lparr>error_count := error_count st + 1,
                logged := logged st @ (INFO, ''Processing file: '' @ file_path) # l
                  @ [(WARNING, ''Could not extract text from: '' @ file_path)]\<rparr>)
      else st\<lparr>skipped_count := skipped_count st + 1\<rparr>)"

fun process_files :: "dir_entry list \<Rightarrow> run_state \<Rightarrow> run_state" where
  "process_files [] st = st"
| "process_files (entry # entries) st = process_files entries (process_file entry st)"

text \<open>
  \<open>process_directory\<close>: \<open>walk\<close> lists the files under \<open>directory_path\<close> in the order
  \<open>os.walk\<close> yields them. Without a connection nothing is counted.
\<close>

definition process_directory ::
  "string \<Rightarrow> dir_entry list \<Rightarrow> connection option \<Rightarrow> run_state" where
  "process_directory directory_path walk conn =
     (case conn of
        None \<Rightarrow>
          \<lparr>db_conn = None, processed_count = 0, skipped_count = 0, error_count = 0,
           duplicate_count = 0,
           logged = [(ERROR, ''Cannot process directory: No database connection.'')]\<rparr>
      | Some c \<Rightarrow>
          process_files walk
            \<lparr>db_conn = Some c, processed_count = 0, skipped_count = 0, error_count = 0,
             duplicate_count = 0,
             logged = [(INFO, ''Starting processing directory: '' @ directory_path)]\<rparr>)"

section \<open>Search (search_pkm.py)\<close>

subsection \<open>Constants\<close>

definition DEFAULT_SEARCH_LIMIT :: int where
  "DEFAULT_SEARCH_LIMIT = 10"

definition HEADLINE_OPTIONS :: string where
  "HEADLINE_OPTIONS =
     ''StartSel=***, StopSel=***, MaxFragments=1, MaxWords=35, MinWords=15, HighlightAll=TRUE''"

definition FTS_CONFIG_EN :: string where
  "FTS_CONFIG_EN = ''public.fts_english_unaccent''"

definition FTS_CONFIG_RU :: string where
  "FTS_CONFIG_RU = ''public.fts_russian_unaccent''"

definition FTS_CONFIG_SIMPLE :: string where
  "FTS_CONFIG_SIMPLE = ''pg_catalog.simple''"

definition valid_languages :: "string set" where
  "valid_languages = {''english'', ''russian'', ''both'', ''simple''}"

subsection \<open>The text-search engine of the store\<close>

text \<open>
  Tokenising, matching, ranking and highlighting are done by the store. The program
  only names the functions in the statements it sends, so they are parameters of the
  model: \<open>'v\<close> is the type of a searchable representation (\<open>tsvector\<close>), \<open>'q\<close> of a
  parsed query (\<open>tsquery\<close>), \<open>'r\<close> of a relevance score. \<open>tsv_column\<close> reads one of the
  derived columns \<open>content_tsv_en\<close>, \<open>content_tsv_ru\<close>, \<open>content_tsv_simple\<close> of a row,
  which the set-up script of the store maintains; \<open>None\<close> is SQL's NULL.
\<close>

record ('v, 'q, 'r) fts_engine =
  tsv_column :: "string \<Rightarrow> file_row \<Rightarrow> 'v option"
  plainto_tsquery :: "string \<Rightarrow> string \<Rightarrow> 'q"
  ts_match :: "'q \<Rightarrow> 'v \<Rightarrow> bool"
  ts_rank_cd :: "'v \<Rightarrow> 'q \<Rightarrow> 'r"
  ts_headline :: "string \<Rightarrow> str \<Rightarrow> 'q \<Rightarrow> string \<Rightarrow> str"

record 'r result_row =
  res_file_path :: string
  res_rank :: 'r
  res_headline :: str

subsection \<open>The meaning of the four statements\<close>

text \<open>
  \<open>query @@ column\<close> and \<open>ts_rank_cd(column, query)\<close> on a column that may be NULL:
  both functions are strict, and a NULL condition does not select the row.
\<close>

definition column_match :: "('v, 'q, 'r) fts_engine \<Rightarrow> string \<Rightarrow> 'q \<Rightarrow> file_row \<Rightarrow> bool" where
  "column_match eng col q row =
     (case tsv_column eng col row of None \<Rightarrow> False | Some v \<Rightarrow> ts_match eng q v)"

definition column_rank ::
  "('v, 'q, 'r) fts_engine \<Rightarrow> string \<Rightarrow> 'q \<Rightarrow> file_row \<Rightarrow> 'r option" where
  "column_rank eng col q row =
     (case tsv_column eng col row of None \<Rightarrow> None | Some v \<Rightarrow> Some (ts_rank_cd eng v q))"

definition coalesce :: "'a option \<Rightarrow> 'a \<Rightarrow> 'a" where
  "coalesce x d = (case x of None \<Rightarrow> d | Some y \<Rightarrow> y)"

text \<open>The statement of the branches \<open>english\<close>, \<open>russian\<close> and \<open>simple\<close>, before
  \<open>ORDER BY\<close> and \<open>LIMIT\<close>.\<close>

definition select_single_rows ::
  "('v, 'q, 'r) fts_engine \<Rightarrow> string \<Rightarrow> string \<Rightarrow> string \<Rightarrow> file_row list
   \<Rightarrow> 'r result_row list" where
  "select_single_rows eng tsvector_col fts_config query_string rows =
     (let query = plainto_tsquery eng fts_config query_string in
      List.map_filter
        (\<lambda>row.
           case tsv_column eng tsvector_col row of
             None \<Rightarrow> None
           | Some v \<Rightarrow>
               if ts_match eng query v \<and> col_file_extension row \<in> SUPPORTED_EXTENSIONS
               then Some \<lparr>res_file_path = col_file_path row,
                          res_rank = ts_rank_cd eng v query,
                          res_headline =
                            ts_headline eng fts_config (col_content row) query
                              HEADLINE_OPTIONS\<rparr>
               else None)
        rows)"

text \<open>The statement of the branch \<open>both\<close>: its \<open>WHERE\<close> clause and its select list.\<close>

definition both_where :: "('v, 'q, 'r) fts_engine \<Rightarrow> string \<Rightarrow> file_row \<Rightarrow> bool" where
  "both_where eng query_string row =
     (let query_en = plainto_tsquery eng FTS_CONFIG_EN query_string;
          query_ru = plainto_tsquery eng FTS_CONFIG_RU query_string
      in (column_match eng ''content_tsv_en'' query_en row
          \<or> column_match eng ''content_tsv_ru'' query_ru row)
         \<and> col_file_extension row \<in> SUPPORTED_EXTENSIONS)"

definition both_row ::
  "('v, 'q, 'r::{plus,zero}) fts_engine \<Rightarrow> string \<Rightarrow> file_row \<Rightarrow> 'r result_row" where
  "both_row eng query_string row =
     (let query_en = plainto_tsquery eng FTS_CONFIG_EN query_string;
          query_ru = plainto_tsquery eng FTS_CONFIG_RU query_string
      in \<lparr>res_file_path = col_file_path row,
          res_rank = coalesce (column_rank eng ''content_tsv_en'' query_en row) 0
                     + coalesce (column_rank eng ''content_tsv_ru'' query_ru row) 0,
          res_headline =
            ts_headline eng FTS_CONFIG_EN (col_content row) query_en HEADLINE_OPTIONS\<rparr>)"

definition select_both_rows ::
  "('v, 'q, 'r::{plus,zero}) fts_engine \<Rightarrow> string \<Rightarrow> file_row list \<Rightarrow> 'r result_row list" where
  "select_both_rows eng query_string rows =
     map (both_row eng query_string) (filter (both_where eng query_string) rows)"

text \<open>
  \<open>ORDER BY rank DESC LIMIT %s\<close>. SQL leaves the order of rows of equal rank open;
  the model takes one such order. A negative limit is an error of the statement.
\<close>

definition order_by_rank_desc_limit ::
  "int \<Rightarrow> ('r::linorder) result_row list \<Rightarrow> 'r result_row list option" where
  "order_by_rank_desc_limit limit rs =
     (if limit < 0 then None else Some (take (nat limit) (rev (sort_key res_rank rs))))"

definition select_sem ::
  "('v, 'q, 'r::{linorder,plus,zero}) fts_engine \<Rightarrow> statement \<Rightarrow> table
   \<Rightarrow> ('r result_row list \<times> table) option" where
  "select_sem eng stmt tbl =
     (case tbl of
        None \<Rightarrow> None
      | Some rows \<Rightarrow>
          (case stmt of
             Select_single tsvector_col fts_config query_string limit \<Rightarrow>
               map_option (\<lambda>rs. (rs, Some rows))
                 (order_by_rank_desc_limit limit
                    (select_single_rows eng tsvector_col fts_config query_string rows))
           | Select_both query_string limit \<Rightarrow>
               map_option (\<lambda>rs. (rs, Some rows))
                 (order_by_rank_desc_limit limit (select_both_rows eng query_string rows))
           | _ \<Rightarrow> None))"

subsection \<open>\<open>search_documents\<close>\<close>

text \<open>The \<open>if\<close>/\<open>elif\<close> chain that builds \<open>query\<close> and \<open>params\<close>.\<close>

definition build_query :: "string \<Rightarrow> string \<Rightarrow> int \<Rightarrow> statement option" where
  "build_query language query_string limit =
     (if language = ''english''
      then Some (Select_single ''content_tsv_en'' FTS_CONFIG_EN query_string limit)
      else if language = ''russian''
      then Some (Select_single ''content_tsv_ru'' FTS_CONFIG_RU query_string limit)
      else if language = ''simple''
      then Some (Select_single ''content_tsv_simple'' FTS_CONFIG_SIMPLE query_string limit)
      else if language = ''both''
      then Some (Select_both query_string limit)
      else None)"

text \<open>
  The result is Python's \<open>None\<close> or a list of rows. A connection that is \<open>None\<close>
  raises \<open>AttributeError\<close> at \<open>conn.cursor\<close>, which the last handler catches.
\<close>

definition search_documents ::
  "('v, 'q, 'r::{linorder,plus,zero}) fts_engine \<Rightarrow> connection option \<Rightarrow> string \<Rightarrow> string
   \<Rightarrow> int \<Rightarrow> 'r result_row list option \<times> connection option \<times> log" where
  "search_documents eng conn query_string language limit =
     (if query_string = [] then
        (Some [], conn, [(WARNING, ''Search query cannot be empty.'')])
      else if language \<notin> valid_languages then
        (None, conn, [(ERROR, ''Invalid language specified: '' @ language)])
      else
        (case conn of
           None \<Rightarrow>
             (None, None, [(ERROR, ''An unexpected error occurred during search'')])
         | Some c \<Rightarrow>
             (case cursor c of
                Inl e \<Rightarrow>
                  (None, Some c,
                   [(ERROR, ''Database error during search''),
                    (ERROR, ''Failed query: Query object was not properly formed or connection closed'')])
              | Inr _ \<Rightarrow>
                  (case build_query language query_string limit of
                     None \<Rightarrow>
                       (None, Some c,
                        [(ERROR, ''Could not construct query for language '' @ language)])
                   | Some stmt \<Rightarrow>
                       (case execute stmt (select_sem eng stmt) c of
                          (Inl e, c') \<Rightarrow>
                            (None, Some c',
                             [(ERROR, ''Database error during search''),
                              (ERROR,
                               if closed c'
                               then ''Failed query: Query object was not properly formed or connection closed''
                               else ''Failed query (parameters interpolated for debugging)'')])
                        | (Inr results, c') \<Rightarrow>
                            (Some results, Some c',
                             [(INFO, ''Found results for query '' @ query_string)]))))))"

subsection \<open>The command line of search_pkm.py\<close>

text \<open>
  What the \<open>__main__\<close> block writes to standard output, one constructor for each
  \<open>print\<close> and each prompt of \<open>input\<close>:
  \<open>Results_header\<close> is \<open>--- Search Results ---\<close>, \<open>Result_path i p r\<close> the line
  \<open>i. Path: p (Rank: r)\<close>, \<open>Result_context h\<close> the line \<open>Context: ...h...\<close>,
  \<open>No_results_found\<close> is \<open>--- No results found. ---\<close> and \<open>Search_error\<close> is
  \<open>--- An error occurred during the search. Check logs. ---\<close>.
\<close>

datatype 'r printed =
    Results_header
  | Result_path nat string 'r
  | Result_context str
  | Results_footer
  | No_results_found
  | Search_error
  | Entering_interactive
  | Using_configurations
  | Prompt_query
  | Prompt_language
  | Invalid_language string
  | Empty_line
  | Exiting_interactive

text \<open>\<open>headline.replace('\n', ' ').replace('\r', '').replace('\t', ' ')\<close>\<close>

definition clean_headline :: "str \<Rightarrow> str" where
  "clean_headline h =
     map (\<lambda>c. if c = 9 then 32 else c)
       (filter (\<lambda>c. c \<noteq> 13) (map (\<lambda>c. if c = 10 then 32 else c) h))"

fun result_lines :: "nat \<Rightarrow> 'r result_row list \<Rightarrow> 'r printed list" where
  "result_lines i [] = []"
| "result_lines i (result # rest) =
     Result_path (i + 1) (res_file_path result) (res_rank result)
     # Result_context (clean_headline (res_headline result))
     # result_lines (i + 1) rest"

text \<open>The presentation of \<open>search_results\<close>, written out twice in the source
  (one-shot and interactive mode).\<close>

definition present :: "'r result_row list option \<Rightarrow> 'r printed list" where
  "present search_results =
     (case search_results of
        None \<Rightarrow> [Search_error]
      | Some rs \<Rightarrow>
          if rs \<noteq> [] then Results_header # result_lines 0 rs @ [Results_footer]
          else [No_results_found])"

text \<open>Standard input as \<open>input()\<close> sees it: a line, the end of input, or Ctrl+C.
  Past the end of the list the input is at its end.\<close>

datatype stdin_event = Line string | EOF | KeyboardInterrupt

text \<open>\<open>str.lower\<close> and \<open>str.strip\<close> on ASCII text.\<close>

definition lower_char :: "char \<Rightarrow> char" where
  "lower_char ch =
     (if (65::nat) \<le> of_char ch \<and> of_char ch \<le> (90::nat)
      then char_of (of_char ch + (32::nat)) else ch)"

definition is_space :: "char \<Rightarrow> bool" where
  "is_space ch =
     (let n = (of_char ch :: nat) in (9 \<le> n \<and> n \<le> 13) \<or> (28 \<le> n \<and> n \<le> 32))"

definition strip :: "string \<Rightarrow> string" where
  "strip s = rev (dropWhile is_space (rev (dropWhile is_space s)))"

definition lang_options :: "string list" where
  "lang_options = [''english'', ''russian'', ''both'', ''simple'']"

text \<open>The interactive loop: \<open>while True\<close> around two calls of \<open>input\<close>.\<close>

fun interactive ::
  "('v, 'q, 'r::{linorder,plus,zero}) fts_engine \<Rightarrow> connection option \<Rightarrow> int
   \<Rightarrow> stdin_event list \<Rightarrow> 'r printed list \<times> connection option" where
  "interactive eng conn limit [] = ([Prompt_query, Empty_line], conn)"
| "interactive eng conn limit (EOF # rest) = ([Prompt_query, Empty_line], conn)"
| "interactive eng conn limit (KeyboardInterrupt # rest) = ([Prompt_query, Empty_line], conn)"
| "interactive eng conn limit (Line search_term # rest) =
     (if search_term = [] then
        (let (out, conn') = interactive eng conn limit rest in (Prompt_query # out, conn'))
      else
        (case rest of
           [] \<Rightarrow> ([Prompt_query, Prompt_language, Empty_line], conn)
         | EOF # _ \<Rightarrow> ([Prompt_query, Prompt_language, Empty_line], conn)
         | KeyboardInterrupt # _ \<Rightarrow> ([Prompt_query, Prompt_language, Empty_line], conn)
         | Line answer # rest' \<Rightarrow>
             (let lang_choice_input = strip (map lower_char answer);
                  lang_choice =
                    (if lang_choice_input = [] then ''english''
                     else if lang_choice_input \<in> set lang_options then lang_choice_input
                     else ''english'');
                  notice =
                    (if lang_choice_input \<noteq> [] \<and> lang_choice_input \<notin> set lang_options
                     then [Invalid_language lang_choice_input] else []);
                  (search_results, conn', l) =
                    search_documents eng conn search_term lang_choice limit;
                  (out, conn'') = interactive eng conn' limit rest'
              in (Prompt_query # Prompt_language # notice @ present search_results @ out,
                  conn''))))"

subsection \<open>\<open>execute_sql_setup\<close> and the \<open>__main__\<close> block\<close>

text \<open>
  Modelled from the spec: the script \<open>setup_fts_enhanced.sql\<close> is not among the
  sources. The spec says of it that the per-language searchable representations are
  derived columns maintained by it, not by the application; so it leaves the three
  columns of the rows as they are.
\<close>

definition setup_fts_enhanced :: "table \<Rightarrow> (unit \<times> table) option" where
  "setup_fts_enhanced t = Some ((), t)"

text \<open>\<open>sql_file\<close> is the text of the script, \<open>None\<close> when the file does not exist.\<close>

definition execute_sql_setup :: "connection \<Rightarrow> string option \<Rightarrow> (exn + bool) \<times> connection" where
  "execute_sql_setup c sql_file =
     (case sql_file of
        None \<Rightarrow> (Inr False, c)
      | Some sql_script \<Rightarrow>
          (let failed = (\<lambda>c'. case rollback c' of
                                (Inl e, c'') \<Rightarrow> (Inl e, c'')
                              | (Inr _, c'') \<Rightarrow> (Inr False, c''))
           in case cursor c of
                Inl e \<Rightarrow> failed c
              | Inr _ \<Rightarrow>
                  (case execute (Sql_script sql_script) setup_fts_enhanced c of
                     (Inl e, c1) \<Rightarrow> failed c1
                   | (Inr _, c1) \<Rightarrow>
                       (case commit c1 of
                          (Inl e, c2) \<Rightarrow> failed c2
                        | (Inr _, c2) \<Rightarrow> (Inr True, c2)))))"

record cli_args =
  arg_setup :: bool
  arg_query :: "string option"
  arg_lang :: string
  arg_limit :: int

datatype ending = Returned | Exit nat | Uncaught exn

definition close_conn :: "connection \<Rightarrow> connection" where
  "close_conn c = c\<lparr>closed := True, txn := Idle\<rparr>"

text \<open>
  \<open>args.query\<close> is tested for truth (\<open>if setup_success and args.query\<close>), so an empty
  string counts as no query: \<open>given_query\<close> is the query of a true \<open>args.query\<close>.
\<close>

definition given_query :: "string option \<Rightarrow> string option" where
  "given_query q = (case q of None \<Rightarrow> None | Some s \<Rightarrow> if s = [] then None else Some s)"

text \<open>
  The \<open>__main__\<close> block after \<open>parse_args\<close>; \<open>conn\<close> is what \<open>get_db_connection()\<close>
  returned.
\<close>

definition main ::
  "('v, 'q, 'r::{linorder,plus,zero}) fts_engine \<Rightarrow> connection option \<Rightarrow> string option
   \<Rightarrow> cli_args \<Rightarrow> stdin_event list \<Rightarrow> ending \<times> 'r printed list \<times> connection option" where
  "main eng conn sql_file args stdin =
     (case conn of
        None \<Rightarrow> (Exit 1, [], None)
      | Some c \<Rightarrow>
          (case (if arg_setup args then execute_sql_setup c sql_file else (Inr True, c)) of
             (Inl e, c') \<Rightarrow> (Uncaught e, [], Some c')
           | (Inr False, c') \<Rightarrow> (Exit 1, [], Some (close_conn c'))
           | (Inr True, c') \<Rightarrow>
               (let (out, conn') =
                      (case given_query (arg_query args) of
                         Some query \<Rightarrow>
                           (let (search_results, conn', l) =
                                  search_documents eng (Some c') query
                                    (arg_lang args) (arg_limit args)
                            in (present search_results, conn'))
                       | None \<Rightarrow>
                           if \<not> arg_setup args then
                             (let (out, conn') =
                                    interactive eng (Some c') (arg_limit args) stdin
                              in (Entering_interactive # Using_configurations # out
                                  @ [Exiting_interactive], conn'))
                           else ([], Some c'))
                in (Returned, out, map_option close_conn conn'))))"

subsection \<open>A small engine for evaluating the model\<close>

text \<open>
  An instance of the engine's interface on which the definitions above can be run:
  a searchable representation is the list of the words of the content (the ASCII words
  for the English column, the others for the Russian one), a query matches when all its
  words occur, and the rank counts the occurrences. It stands for no property of the
  real engine.
\<close>

fun split_words :: "str \<Rightarrow> str \<Rightarrow> str list" where
  "split_words [] w = (if w = [] then [] else [w])"
| "split_words (c # cs) w =
     (if c = 32 then (if w = [] then split_words cs [] else w # split_words cs [])
      else split_words cs (w @ [c]))"

definition ascii_word :: "str \<Rightarrow> bool" where
  "ascii_word w = list_all (\<lambda>c. c < 128) w"

definition toy_engine :: "(str list, str list, nat) fts_engine" where
  "toy_engine =
     \<lparr>tsv_column = (\<lambda>col row.
        if col = ''content_tsv_en''
        then Some (filter ascii_word (split_words (col_content row) []))
        else if col = ''content_tsv_ru''
        then Some (filter (\<lambda>w. \<not> ascii_word w) (split_words (col_content row) []))
        else if col = ''content_tsv_simple''
        then Some (split_words (col_content row) [])
        else None),
      plainto_tsquery = (\<lambda>cfg q.
        if cfg = FTS_CONFIG_EN
        then filter ascii_word (split_words (map of_char q) [])
        else if cfg = FTS_CONFIG_RU
        then filter (\<lambda>w. \<not> ascii_word w) (split_words (map of_char q) [])
        else split_words (map of_char q) []),
      ts_match = (\<lambda>q v. q \<noteq> [] \<and> list_all (\<lambda>w. w \<in> set v) q),
      ts_rank_cd = (\<lambda>v q.
        if q \<noteq> [] \<and> list_all (\<lambda>w. w \<in> set v) q
        then length (filter (\<lambda>w. w \<in> set q) v) else 0),
      ts_headline = (\<lambda>cfg content q opts. content)\<rparr>"

section \<open>Notions used in the properties\<close>


text \<open>
  A connection in working order: open, no transaction pending, and no failure of the
  store or the wire scheduled for the statements to come.
\<close>

definition healthy :: "connection \<Rightarrow> bool" where
  "healthy c = (\<not> closed c \<and> txn c = Idle \<and> list_all (\<lambda>f. f = None) (script c))"

text \<open>A walked file of a supported type whose extraction gives a text.\<close>

definition has_text :: "dir_entry \<Rightarrow> bool" where
  "has_text entry =
     (entry_ext entry \<in> SUPPORTED_EXTENSIONS
      \<and> fst (extract_by_extension (entry_node entry) (entry_path entry) (entry_ext entry))
          \<noteq> None)"

text \<open>
  Of the state of a run: that its connection is in working order; the paths for which
  an insertion would add no record (every path when the relation is missing, since the
  statement fails then); and the stored records.
\<close>

definition conn_ok :: "run_state \<Rightarrow> bool" where
  "conn_ok st = (case db_conn st of None \<Rightarrow> False | Some c \<Rightarrow> healthy c)"

definition stored_paths :: "run_state \<Rightarrow> string set" where
  "stored_paths st =
     (case db_conn st of
        None \<Rightarrow> UNIV
      | Some c \<Rightarrow>
          (case committed c of None \<Rightarrow> UNIV | Some rows \<Rightarrow> set (map col_file_path rows)))"

definition store_of :: "run_state \<Rightarrow> table option" where
  "store_of st = map_option committed (db_conn st)"

text \<open>
  Following the spec's words on the combined mode: the relevance score of one language
  for a record, "treating a non-match as zero contribution". It is the score the
  single-language statement computes for a record it selects, and zero for the others.
\<close>

definition spec_language_score ::
  "('v, 'q, 'r::zero) fts_engine \<Rightarrow> string \<Rightarrow> string \<Rightarrow> string \<Rightarrow> file_row \<Rightarrow> 'r" where
  "spec_language_score eng tsvector_col fts_config query_string row =
     (case tsv_column eng tsvector_col row of
        None \<Rightarrow> 0
      | Some v \<Rightarrow>
          if ts_match eng (plainto_tsquery eng fts_config query_string) v
          then ts_rank_cd eng v (plainto_tsquery eng fts_config query_string)
          else 0)"

section \<open>Properties of text extraction\<close>

lemma read_pages_text: "read_pages (map Page_text ts) acc = Inr (acc @ concat ts)"
  by (induction ts arbitrary: acc) auto

lemma read_pages_error: "Page_error \<in> set ps \<Longrightarrow> read_pages ps acc = Inl OtherException"
proof (induction ps arbitrary: acc)
  case Nil
  then show ?case by simp
next
  case (Cons p ps)
  then show ?case by (cases p) auto
qed

lemma process_files_append:
  "process_files (xs @ ys) st = process_files ys (process_files xs st)"
  by (induction xs arbitrary: st) auto

lemma process_file_no_text:
  assumes "entry_ext entry \<in> SUPPORTED_EXTENSIONS"
    and "extract_by_extension (entry_node entry) (entry_path entry) (entry_ext entry) = (None, l)"
  shows "process_file entry st =
           st\<lparr>error_count := error_count st + 1,
              logged := logged st @ (INFO, ''Processing file: '' @ entry_path entry) # l
                @ [(WARNING, ''Could not extract text from: '' @ entry_path entry)]\<rparr>"
  using assms by (simp add: process_file_def Let_def)

text \<open>
  C4, as stated, fails: the sentinel is not returned only after two failed attempts.
  When the first \<open>open\<close> raises anything but a decode error, the handler of line 103
  returns \<open>None\<close> at once; the log shows one error record and no fallback, although
  the latin-1 read of the same file would have delivered its text.
\<close>

theorem txt_sentinel_without_fallback:
  "extract_text_from_txt
     \<lparr>open_first = IO_error, open_retry = Data [0x68, 0x69], fitz_open = Pdf_data_error\<rparr>
     ''notes.txt''
   = (None, [(ERROR, ''Error reading TXT file notes.txt'')])
   \<and> open_read (Data [0x68, 0x69]) latin1_decode = Inr [104, 105]"
  by (simp add: extract_text_from_txt_def open_read_def latin1_decode_def)

text \<open>
  C4, amended. For a \<open>.txt\<close> or \<open>.md\<close> file: text that decodes as UTF-8 is returned;
  after a decode failure the latin-1 read is tried and its text returned; the sentinel
  \<open>None\<close> is returned exactly when the first read fails with an error other than a decode
  error (no fallback then) or the decode fails and the fallback read fails too; \<open>.md\<close>
  is read as \<open>.txt\<close>; and in \<open>process_directory\<close> such a file adds one to
  \<open>error_count\<close> and the loop goes on with the remaining files.
\<close>

theorem txt_extraction_fallback:
  "(\<forall>t. open_read (open_first node) utf8_decode = Inr t
        \<longrightarrow> fst (extract_text_from_txt node p) = Some t)
   \<and> (\<forall>t. open_read (open_first node) utf8_decode = Inl UnicodeDecodeError
          \<and> open_read (open_retry node) latin1_decode = Inr t
        \<longrightarrow> fst (extract_text_from_txt node p) = Some t)
   \<and> (fst (extract_text_from_txt node p) = None
        \<longleftrightarrow> (\<exists>e. e \<noteq> UnicodeDecodeError \<and> open_read (open_first node) utf8_decode = Inl e)
            \<or> (open_read (open_first node) utf8_decode = Inl UnicodeDecodeError
               \<and> (\<exists>e. open_read (open_retry node) latin1_decode = Inl e)))
   \<and> extract_text_from_md node p = extract_text_from_txt node p
   \<and> (\<forall>entry rest st.
         (entry_ext entry = ''.txt'' \<or> entry_ext entry = ''.md'')
         \<and> fst (extract_text_from_txt (entry_node entry) (entry_path entry)) = None
        \<longrightarrow> process_files (entry # rest) st =
              process_files rest
                (st\<lparr>error_count := error_count st + 1,
                    logged := logged st @ (INFO, ''Processing file: '' @ entry_path entry)
                      # snd (extract_text_from_txt (entry_node entry) (entry_path entry))
                      @ [(WARNING, ''Could not extract text from: '' @ entry_path entry)]\<rparr>))"
proof -
  have a: "\<forall>t. open_read (open_first node) utf8_decode = Inr t
        \<longrightarrow> fst (extract_text_from_txt node p) = Some t"
    by (simp add: extract_text_from_txt_def)
  have b: "\<forall>t. open_read (open_first node) utf8_decode = Inl UnicodeDecodeError
          \<and> open_read (open_retry node) latin1_decode = Inr t
        \<longrightarrow> fst (extract_text_from_txt node p) = Some t"
    by (simp add: extract_text_from_txt_def)
  have c: "fst (extract_text_from_txt node p) = None
        \<longleftrightarrow> (\<exists>e. e \<noteq> UnicodeDecodeError \<and> open_read (open_first node) utf8_decode = Inl e)
            \<or> (open_read (open_first node) utf8_decode = Inl UnicodeDecodeError
               \<and> (\<exists>e. open_read (open_retry node) latin1_decode = Inl e))"
    by (auto simp add: extract_text_from_txt_def split: sum.splits exn.splits)
  have d: "extract_text_from_md node p = extract_text_from_txt node p"
    by (simp add: extract_text_from_md_def)
  have e: "process_files (entry # rest) st =
              process_files rest
                (st\<lparr>error_count := error_count st + 1,
                    logged := logged st @ (INFO, ''Processing file: '' @ entry_path entry)
                      # snd (extract_text_from_txt (entry_node entry) (entry_path entry))
                      @ [(WARNING, ''Could not extract text from: '' @ entry_path entry)]\<rparr>)"
    if h: "entry_ext entry = ''.txt'' \<or> entry_ext entry = ''.md''"
      "fst (extract_text_from_txt (entry_node entry) (entry_path entry)) = None"
    for entry rest st
  proof -
    have s: "entry_ext entry \<in> SUPPORTED_EXTENSIONS"
      using h(1) by (auto simp: SUPPORTED_EXTENSIONS_def)
    have x: "extract_by_extension (entry_node entry) (entry_path entry) (entry_ext entry)
           = (None, snd (extract_text_from_txt (entry_node entry) (entry_path entry)))"
      using h by (auto simp: extract_by_extension_def extract_text_from_md_def prod_eq_iff)
    show ?thesis using process_file_no_text [OF s x] by simp
  qed
  show ?thesis using a b c d e by blast
qed

text \<open>
  The bytes \<open>63 61 66 E9\<close> are \<open>caf\<close> and a latin-1 e-acute: not UTF-8, and extracted
  through the fallback.
\<close>

theorem txt_extraction_fallback_witness:
  "open_read (Data [0x63, 0x61, 0x66, 0xE9]) utf8_decode = Inl UnicodeDecodeError
   \<and> open_read (Data [0x63, 0x61, 0x66, 0xE9]) latin1_decode = Inr [99, 97, 102, 233]
   \<and> fst (extract_text_from_txt
            \<lparr>open_first = Data [0x63, 0x61, 0x66, 0xE9],
             open_retry = Data [0x63, 0x61, 0x66, 0xE9],
             fitz_open = Pdf_data_error\<rparr> ''notes.txt'')
       = Some [99, 97, 102, 233]"
proof -
  have h1: "open_read (Data [0x63, 0x61, 0x66, 0xE9]) utf8_decode = Inl UnicodeDecodeError"
    by (simp add: open_read_def utf8_decode_def cont_def)
  have h2: "open_read (Data [0x63, 0x61, 0x66, 0xE9]) latin1_decode = Inr [99, 97, 102, 233]"
    by (simp add: open_read_def latin1_decode_def)
  have "\<forall>t. open_read (open_first \<lparr>open_first = Data [0x63, 0x61, 0x66, 0xE9],
             open_retry = Data [0x63, 0x61, 0x66, 0xE9],
             fitz_open = Pdf_data_error\<rparr>) utf8_decode = Inl UnicodeDecodeError
          \<and> open_read (open_retry \<lparr>open_first = Data [0x63, 0x61, 0x66, 0xE9],
             open_retry = Data [0x63, 0x61, 0x66, 0xE9],
             fitz_open = Pdf_data_error\<rparr>) latin1_decode = Inr t
        \<longrightarrow> fst (extract_text_from_txt \<lparr>open_first = Data [0x63, 0x61, 0x66, 0xE9],
             open_retry = Data [0x63, 0x61, 0x66, 0xE9],
             fitz_open = Pdf_data_error\<rparr> ''notes.txt'') = Some t"
    using txt_extraction_fallback
      [of "\<lparr>open_first = Data [0x63, 0x61, 0x66, 0xE9],
             open_retry = Data [0x63, 0x61, 0x66, 0xE9],
             fitz_open = Pdf_data_error\<rparr>" "''notes.txt''"]
    by blast
  then show ?thesis using h1 h2 by simp
qed

text \<open>
  C10. Latin-1 decodes every byte sequence. So a \<open>.txt\<close> or \<open>.md\<close> file whose reads
  raise no I/O error is never answered with the sentinel, and the branch that logs
  \<open>Could not read TXT file ... even with fallback\<close> is entered only when the UTF-8
  decode failed and the second read raised an I/O error.
\<close>

theorem latin1_fallback_never_fails:
  "latin1_decode bs \<noteq> None
   \<and> (open_first node \<noteq> IO_error \<and> open_retry node \<noteq> IO_error
      \<longrightarrow> fst (extract_text_from_txt node p) \<noteq> None
          \<and> fst (extract_text_from_md node p) \<noteq> None)
   \<and> ((ERROR, ''Could not read TXT file '' @ p @ '' even with fallback'')
         \<in> set (snd (extract_text_from_txt node p))
      \<longrightarrow> open_retry node = IO_error
          \<and> (\<exists>b. open_first node = Data b \<and> utf8_decode b = None))"
proof -
  have a: "latin1_decode bs \<noteq> None"
    by (simp add: latin1_decode_def)
  have b: "fst (extract_text_from_txt node p) \<noteq> None"
    if "open_first node \<noteq> IO_error" "open_retry node \<noteq> IO_error"
    using that
    by (auto simp add: extract_text_from_txt_def open_read_def latin1_decode_def
        split: read_outcome.splits option.splits)
  have c: "open_retry node = IO_error \<and> (\<exists>b. open_first node = Data b \<and> utf8_decode b = None)"
    if "(ERROR, ''Could not read TXT file '' @ p @ '' even with fallback'')
         \<in> set (snd (extract_text_from_txt node p))"
    using that
    by (auto simp add: extract_text_from_txt_def open_read_def latin1_decode_def
        split: read_outcome.splits option.splits)
  show ?thesis using a b c by (simp add: extract_text_from_md_def)
qed

theorem latin1_fallback_never_fails_witness:
  "open_first \<lparr>open_first = Data [0xFF, 0xFE], open_retry = Data [0xFF, 0xFE],
               fitz_open = Pdf_data_error\<rparr> \<noteq> IO_error
   \<and> open_retry \<lparr>open_first = Data [0xFF, 0xFE], open_retry = Data [0xFF, 0xFE],
                 fitz_open = Pdf_data_error\<rparr> \<noteq> IO_error
   \<and> utf8_decode [0xFF, 0xFE] = None
   \<and> fst (extract_text_from_txt
            \<lparr>open_first = Data [0xFF, 0xFE], open_retry = Data [0xFF, 0xFE],
             fitz_open = Pdf_data_error\<rparr> ''raw.txt'') \<noteq> None"
  using latin1_fallback_never_fails
    [of "[]" "\<lparr>open_first = Data [0xFF, 0xFE], open_retry = Data [0xFF, 0xFE],
               fitz_open = Pdf_data_error\<rparr>" "''raw.txt''"]
  by (simp add: utf8_decode_def)

text \<open>
  C5. \<open>extract_text_from_pdf\<close> returns the sentinel for a document that is encrypted
  and does not open with the empty password; for any other document whose pages all
  give their text it returns the texts concatenated in page order; a document that
  cannot be opened, or a page that cannot be read, gives the sentinel. In
  \<open>process_directory\<close> a \<open>.pdf\<close> file answered with the sentinel adds one to
  \<open>error_count\<close> and the loop goes on with the remaining files.
\<close>

theorem pdf_extraction:
  "(fitz_open node = Pdf_doc doc \<and> is_encrypted doc \<and> \<not> authenticate_empty doc
      \<longrightarrow> fst (extract_text_from_pdf node p) = None)
   \<and> (\<forall>ts. fitz_open node = Pdf_doc doc \<and> \<not> (is_encrypted doc \<and> \<not> authenticate_empty doc)
            \<and> pages doc = map Page_text ts
      \<longrightarrow> fst (extract_text_from_pdf node p) = Some (concat ts))
   \<and> (fitz_open node = Pdf_not_found \<or> fitz_open node = Pdf_data_error
       \<or> fitz_open node = Pdf_other_error
       \<or> (fitz_open node = Pdf_doc doc \<and> Page_error \<in> set (pages doc))
      \<longrightarrow> fst (extract_text_from_pdf node p) = None)
   \<and> (\<forall>entry rest st.
         entry_ext entry = ''.pdf''
         \<and> fst (extract_text_from_pdf (entry_node entry) (entry_path entry)) = None
        \<longrightarrow> process_files (entry # rest) st =
              process_files rest
                (st\<lparr>error_count := error_count st + 1,
                    logged := logged st @ (INFO, ''Processing file: '' @ entry_path entry)
                      # snd (extract_text_from_pdf (entry_node entry) (entry_path entry))
                      @ [(WARNING, ''Could not extract text from: '' @ entry_path entry)]\<rparr>))"
proof -
  have a: "fst (extract_text_from_pdf node p) = None"
    if "fitz_open node = Pdf_doc doc" "is_encrypted doc" "\<not> authenticate_empty doc"
    using that by (simp add: extract_text_from_pdf_def)
  have b: "fst (extract_text_from_pdf node p) = Some (concat ts)"
    if "fitz_open node = Pdf_doc doc" "\<not> (is_encrypted doc \<and> \<not> authenticate_empty doc)"
      "pages doc = map Page_text ts" for ts
    using that by (auto simp add: extract_text_from_pdf_def read_pages_text)
  have c: "fst (extract_text_from_pdf node p) = None"
    if "fitz_open node = Pdf_not_found \<or> fitz_open node = Pdf_data_error
       \<or> fitz_open node = Pdf_other_error
       \<or> (fitz_open node = Pdf_doc doc \<and> Page_error \<in> set (pages doc))"
    using that by (auto simp add: extract_text_from_pdf_def read_pages_error)
  have d: "process_files (entry # rest) st =
              process_files rest
                (st\<lparr>error_count := error_count st + 1,
                    logged := logged st @ (INFO, ''Processing file: '' @ entry_path entry)
                      # snd (extract_text_from_pdf (entry_node entry) (entry_path entry))
                      @ [(WARNING, ''Could not extract text from: '' @ entry_path entry)]\<rparr>)"
    if h: "entry_ext entry = ''.pdf''"
      "fst (extract_text_from_pdf (entry_node entry) (entry_path entry)) = None"
    for entry rest st
  proof -
    have s: "entry_ext entry \<in> SUPPORTED_EXTENSIONS"
      using h(1) by (simp add: SUPPORTED_EXTENSIONS_def)
    have x: "extract_by_extension (entry_node entry) (entry_path entry) (entry_ext entry)
           = (None, snd (extract_text_from_pdf (entry_node entry) (entry_path entry)))"
      using h by (simp add: extract_by_extension_def prod_eq_iff)
    show ?thesis using process_file_no_text [OF s x] by simp
  qed
  show ?thesis using a b c d by blast
qed

text \<open>
  An encrypted document that the empty password does not open, and an open document of
  two pages.
\<close>

theorem pdf_extraction_witness:
  "fst (extract_text_from_pdf
          \<lparr>open_first = IO_error, open_retry = IO_error,
           fitz_open = Pdf_doc \<lparr>is_encrypted = True, authenticate_empty = False,
                                pages = [Page_text [97]]\<rparr>\<rparr> ''b.pdf'') = None
   \<and> fst (extract_text_from_pdf
          \<lparr>open_first = IO_error, open_retry = IO_error,
           fitz_open = Pdf_doc \<lparr>is_encrypted = False, authenticate_empty = False,
                                pages = map Page_text [[97, 98], [99]]\<rparr>\<rparr> ''c.pdf'')
       = Some [97, 98, 99]"
proof -
  have "fitz_open \<lparr>open_first = IO_error, open_retry = IO_error,
           fitz_open = Pdf_doc \<lparr>is_encrypted = True, authenticate_empty = False,
                                pages = [Page_text [97]]\<rparr>\<rparr>
        = Pdf_doc \<lparr>is_encrypted = True, authenticate_empty = False, pages = [Page_text [97]]\<rparr>
      \<and> is_encrypted \<lparr>is_encrypted = True, authenticate_empty = False,
                       pages = [Page_text [97]]\<rparr>
      \<and> \<not> authenticate_empty \<lparr>is_encrypted = True, authenticate_empty = False,
                               pages = [Page_text [97]]\<rparr>"
    by simp
  then have locked: "fst (extract_text_from_pdf
          \<lparr>open_first = IO_error, open_retry = IO_error,
           fitz_open = Pdf_doc \<lparr>is_encrypted = True, authenticate_empty = False,
                                pages = [Page_text [97]]\<rparr>\<rparr> ''b.pdf'') = None"
    using pdf_extraction
    [of "\<lparr>open_first = IO_error, open_retry = IO_error,
           fitz_open = Pdf_doc \<lparr>is_encrypted = True, authenticate_empty = False,
                                pages = [Page_text [97]]\<rparr>\<rparr>"
        "\<lparr>is_encrypted = True, authenticate_empty = False, pages = [Page_text [97]]\<rparr>"
        "''b.pdf''"]
    by blast
  have "fitz_open \<lparr>open_first = IO_error, open_retry = IO_error,
           fitz_open = Pdf_doc \<lparr>is_encrypted = False, authenticate_empty = False,
                                pages = map Page_text [[97, 98], [99]]\<rparr>\<rparr>
        = Pdf_doc \<lparr>is_encrypted = False, authenticate_empty = False,
                   pages = map Page_text [[97, 98], [99]]\<rparr>
      \<and> \<not> (is_encrypted \<lparr>is_encrypted = False, authenticate_empty = False,
                           pages = map Page_text [[97, 98], [99]]\<rparr>
            \<and> \<not> authenticate_empty \<lparr>is_encrypted = False, authenticate_empty = False,
                           pages = map Page_text [[97, 98], [99]]\<rparr>)
      \<and> pages \<lparr>is_encrypted = False, authenticate_empty = False,
                pages = map Page_text [[97, 98], [99]]\<rparr> = map Page_text [[97, 98], [99]]"
    by simp
  then have "fst (extract_text_from_pdf
          \<lparr>open_first = IO_error, open_retry = IO_error,
           fitz_open = Pdf_doc \<lparr>is_encrypted = False, authenticate_empty = False,
                                pages = map Page_text [[97, 98], [99]]\<rparr>\<rparr> ''c.pdf'')
       = Some (concat [[97, 98], [99]])"
    using pdf_extraction
    [of "\<lparr>open_first = IO_error, open_retry = IO_error,
           fitz_open = Pdf_doc \<lparr>is_encrypted = False, authenticate_empty = False,
                                pages = map Page_text [[97, 98], [99]]\<rparr>\<rparr>"
        "\<lparr>is_encrypted = False, authenticate_empty = False,
          pages = map Page_text [[97, 98], [99]]\<rparr>"
        "''c.pdf''"]
    by blast
  then show ?thesis using locked by simp
qed

section \<open>Properties of the record store\<close>






lemma insert_file_data_healthy:
  assumes "healthy c"
  shows "\<exists>c2 b l. insert_file_data (Some c) p e t = (Inr b, Some c2, l)
           \<and> healthy c2
           \<and> trace c2 = trace c @ [Insert_on_conflict_do_nothing p e t]
           \<and> (case committed c of
                None \<Rightarrow> \<not> b \<and> committed c2 = None
                       \<and> l = [(ERROR, ''Error inserting data for '' @ p)]
              | Some rows \<Rightarrow>
                  if p \<in> set (map col_file_path rows)
                  then \<not> b \<and> committed c2 = Some rows
                       \<and> l = [(INFO, ''Skipped duplicate file: '' @ p)]
                  else b \<and> committed c2 = Some (rows @
                               [\<lparr>col_file_path = p, col_file_extension = e,
                                 col_content = t\<rparr>])
                       \<and> l = [(DEBUG, ''Successfully inserted data for: '' @ p)])"
proof -
  from assms have h: "\<not> closed c" "txn c = Idle" "next_fault c = None"
    "list_all (\<lambda>f. f = None) (tl (script c))"
    by (cases "script c"; simp add: healthy_def next_fault_def)+
  show ?thesis
    using h
    by (auto simp add: insert_file_data_def cursor_def execute_def commit_def rollback_def
      rollback_and_fail_def insert_on_conflict_do_nothing_def Let_def view_def healthy_def
      split: option.splits)
qed








text \<open>
  C1 fails on the code. A file whose \<open>INSERT\<close> the store rejects (here the first of
  two files, \<open>docs/a.txt\<close>) does not stop the run, and the transaction is rolled back:
  the connection is idle again and the next file, \<open>docs/c.md\<close>, is inserted. But
  \<open>insert_file_data\<close> returns False for it, as for a duplicate, and
  \<open>process_directory\<close> adds it to \<open>duplicate_count\<close> (printed as
  \<open>Skipped (already in DB)\<close>), not to \<open>error_count\<close>, although the log has the
  record \<open>Error inserting data\<close>.
\<close>

theorem insertion_error_counted_as_duplicate:
  "process_directory ''docs''
     [\<lparr>entry_path = ''docs/a.txt'', entry_ext = ''.txt'',
       entry_node = \<lparr>open_first = Data [0x68, 0x69], open_retry = Data [0x68, 0x69],
                     fitz_open = Pdf_data_error\<rparr>\<rparr>,
      \<lparr>entry_path = ''docs/c.md'', entry_ext = ''.md'',
       entry_node = \<lparr>open_first = Data [0x6D, 0x64], open_retry = Data [0x6D, 0x64],
                     fitz_open = Pdf_data_error\<rparr>\<rparr>]
     (Some \<lparr>closed = False, txn = Idle, committed = Some [],
            script = [Some Stmt_fails], trace = []\<rparr>)
   = \<lparr>db_conn =
        Some \<lparr>closed = False, txn = Idle,
              committed = Some [\<lparr>col_file_path = ''docs/c.md'', col_file_extension = ''.md'',
                                 col_content = [109, 100]\<rparr>],
              script = [],
              trace = [Insert_on_conflict_do_nothing ''docs/a.txt'' ''.txt'' [104, 105],
                       Insert_on_conflict_do_nothing ''docs/c.md'' ''.md'' [109, 100]]\<rparr>,
      processed_count = 1, skipped_count = 0, error_count = 0, duplicate_count = 1,
      logged = [(INFO, ''Starting processing directory: docs''),
                (INFO, ''Processing file: docs/a.txt''),
                (ERROR, ''Error inserting data for docs/a.txt''),
                (INFO, ''Processing file: docs/c.md''),
                (DEBUG, ''Successfully inserted data for: docs/c.md'')]\<rparr>"
  by (simp add: process_directory_def process_file_def extract_by_extension_def
      extract_text_from_txt_def extract_text_from_md_def open_read_def utf8_decode_def
      SUPPORTED_EXTENSIONS_def insert_file_data_def cursor_def execute_def commit_def
      rollback_def rollback_and_fail_def insert_on_conflict_do_nothing_def next_fault_def
      view_def Let_def)



section \<open>Properties of repeated ingestion\<close>

lemma process_file_step:
  assumes "conn_ok st"
  shows "conn_ok (process_file entry st)
     \<and> skipped_count (process_file entry st)
         = skipped_count st + (if entry_ext entry \<in> SUPPORTED_EXTENSIONS then 0 else 1)
     \<and> error_count (process_file entry st)
         = error_count st
           + (if entry_ext entry \<in> SUPPORTED_EXTENSIONS \<and> \<not> has_text entry then 1 else 0)
     \<and> processed_count (process_file entry st)
         = processed_count st
           + (if has_text entry \<and> entry_path entry \<notin> stored_paths st then 1 else 0)
     \<and> duplicate_count (process_file entry st)
         = duplicate_count st
           + (if has_text entry \<and> entry_path entry \<in> stored_paths st then 1 else 0)
     \<and> stored_paths (process_file entry st)
         = stored_paths st \<union> (if has_text entry then {entry_path entry} else {})
     \<and> ((has_text entry \<longrightarrow> entry_path entry \<in> stored_paths st)
          \<longrightarrow> store_of (process_file entry st) = store_of st)"
proof -
  from assms obtain c where c: "db_conn st = Some c" and h: "healthy c"
    by (cases "db_conn st") (auto simp: conn_ok_def)
  show ?thesis
  proof (cases "has_text entry")
    case False
    then have "db_conn (process_file entry st) = db_conn st
       \<and> skipped_count (process_file entry st)
           = skipped_count st + (if entry_ext entry \<in> SUPPORTED_EXTENSIONS then 0 else 1)
       \<and> error_count (process_file entry st)
           = error_count st + (if entry_ext entry \<in> SUPPORTED_EXTENSIONS then 1 else 0)
       \<and> processed_count (process_file entry st) = processed_count st
       \<and> duplicate_count (process_file entry st) = duplicate_count st"
      by (auto simp add: process_file_def has_text_def Let_def split: prod.splits option.splits)
    with False assms show ?thesis
      by (simp add: conn_ok_def stored_paths_def store_of_def)
  next
    case True
    then obtain content l where x:
      "extract_by_extension (entry_node entry) (entry_path entry) (entry_ext entry)
         = (Some content, l)"
      and s: "entry_ext entry \<in> SUPPORTED_EXTENSIONS"
      by (cases "extract_by_extension (entry_node entry) (entry_path entry) (entry_ext entry)")
         (auto simp: has_text_def)
    from insert_file_data_healthy [OF h, of "entry_path entry" "entry_ext entry" content]
    obtain c2 b l' where i:
      "insert_file_data (Some c) (entry_path entry) (entry_ext entry) content
         = (Inr b, Some c2, l')"
      and h2: "healthy c2"
      and eff: "case committed c of
                  None \<Rightarrow> \<not> b \<and> committed c2 = None
                         \<and> l' = [(ERROR, ''Error inserting data for '' @ entry_path entry)]
                | Some rows \<Rightarrow>
                    if entry_path entry \<in> set (map col_file_path rows)
                    then \<not> b \<and> committed c2 = Some rows
                         \<and> l' = [(INFO, ''Skipped duplicate file: '' @ entry_path entry)]
                    else b \<and> committed c2 = Some (rows @
                                 [\<lparr>col_file_path = entry_path entry,
                                   col_file_extension = entry_ext entry,
                                   col_content = content\<rparr>])
                         \<and> l' = [(DEBUG, ''Successfully inserted data for: ''
                                          @ entry_path entry)]"
      by blast
    have pf: "db_conn (process_file entry st) = Some c2
       \<and> skipped_count (process_file entry st) = skipped_count st
       \<and> error_count (process_file entry st) = error_count st
       \<and> processed_count (process_file entry st) = processed_count st + (if b then 1 else 0)
       \<and> duplicate_count (process_file entry st) = duplicate_count st + (if b then 0 else 1)"
      using x s i c by (simp add: process_file_def Let_def)
    show ?thesis
    proof (cases "committed c")
      case None
      with eff pf h2 True s c show ?thesis
        by (simp add: conn_ok_def stored_paths_def store_of_def)
    next
      case (Some rows)
      show ?thesis
      proof (cases "entry_path entry \<in> set (map col_file_path rows)")
        case in_rows: True
        with Some eff have "\<not> b" "committed c2 = Some rows" by simp_all
        with pf h2 True s c Some in_rows show ?thesis
          by (simp add: conn_ok_def stored_paths_def store_of_def insert_absorb)
      next
        case not_in: False
        with Some eff have "b" "committed c2 = Some (rows @
                                 [\<lparr>col_file_path = entry_path entry,
                                   col_file_extension = entry_ext entry,
                                   col_content = content\<rparr>])" by simp_all
        with pf h2 True s c Some not_in show ?thesis
          by (simp add: conn_ok_def stored_paths_def store_of_def)
      qed
    qed
  qed
qed

lemma process_files_run:
  assumes "conn_ok st"
  shows "conn_ok (process_files entries st)
     \<and> skipped_count (process_files entries st)
         = skipped_count st
           + length (filter (\<lambda>e. entry_ext e \<notin> SUPPORTED_EXTENSIONS) entries)
     \<and> error_count (process_files entries st)
         = error_count st
           + length (filter (\<lambda>e. entry_ext e \<in> SUPPORTED_EXTENSIONS \<and> \<not> has_text e) entries)
     \<and> processed_count (process_files entries st) + duplicate_count (process_files entries st)
         = processed_count st + duplicate_count st + length (filter has_text entries)
     \<and> stored_paths (process_files entries st)
         = stored_paths st \<union> entry_path ` {e \<in> set entries. has_text e}"
  using assms
proof (induction entries arbitrary: st)
  case Nil
  then show ?case by simp
next
  case (Cons entry entries)
  note step = process_file_step [OF Cons.prems, of entry]
  from step have ok: "conn_ok (process_file entry st)" by simp
  note ih = Cons.IH [OF ok]
  have sk: "skipped_count (process_files (entry # entries) st)
         = skipped_count st
           + length (filter (\<lambda>e. entry_ext e \<notin> SUPPORTED_EXTENSIONS) (entry # entries))"
    using step ih by simp
  have er: "error_count (process_files (entry # entries) st)
         = error_count st
           + length (filter (\<lambda>e. entry_ext e \<in> SUPPORTED_EXTENSIONS \<and> \<not> has_text e)
                       (entry # entries))"
    using step ih by simp
  have su: "processed_count (process_files (entry # entries) st)
           + duplicate_count (process_files (entry # entries) st)
         = processed_count st + duplicate_count st + length (filter has_text (entry # entries))"
    using step ih by simp
  have pa: "stored_paths (process_files (entry # entries) st)
         = stored_paths st \<union> entry_path ` {e \<in> set (entry # entries). has_text e}"
    using step ih by auto
  from ih sk er su pa show ?case by simp
qed

lemma process_files_all_stored:
  assumes "conn_ok st"
    and "\<forall>e \<in> set entries. has_text e \<longrightarrow> entry_path e \<in> stored_paths st"
  shows "store_of (process_files entries st) = store_of st
     \<and> processed_count (process_files entries st) = processed_count st"
  using assms
proof (induction entries arbitrary: st)
  case Nil
  then show ?case by simp
next
  case (Cons entry entries)
  note step = process_file_step [OF Cons.prems(1), of entry]
  from step have ok: "conn_ok (process_file entry st)" by simp
  from Cons.prems(2) have here: "has_text entry \<longrightarrow> entry_path entry \<in> stored_paths st"
    by simp
  with step have same: "store_of (process_file entry st) = store_of st"
    "processed_count (process_file entry st) = processed_count st"
    "stored_paths (process_file entry st) = stored_paths st"
    by auto
  from Cons.prems(2) same(3)
  have "\<forall>e \<in> set entries. has_text e \<longrightarrow> entry_path e \<in> stored_paths (process_file entry st)"
    by simp
  from Cons.IH [OF ok this] same show ?case by simp
qed

text \<open>
  C6, as stated, fails: the duplicate counter of the second run is not always the
  inserted counter of the first. Here the store already holds \<open>docs/sub/b.txt\<close> (from
  an ingestion of \<open>docs/sub\<close>, say) when \<open>docs\<close>, with \<open>a.txt\<close> and \<open>sub/b.txt\<close>,
  is ingested twice: the first run inserts one file and skips one duplicate, the second
  skips two.
\<close>

theorem second_run_duplicates_exceed_first_inserted:
  "processed_count
     (process_directory ''docs''
        [\<lparr>entry_path = ''docs/a.txt'', entry_ext = ''.txt'',
          entry_node = \<lparr>open_first = Data [0x61], open_retry = Data [0x61],
                        fitz_open = Pdf_data_error\<rparr>\<rparr>,
         \<lparr>entry_path = ''docs/sub/b.txt'', entry_ext = ''.txt'',
          entry_node = \<lparr>open_first = Data [0x62], open_retry = Data [0x62],
                        fitz_open = Pdf_data_error\<rparr>\<rparr>]
        (Some \<lparr>closed = False, txn = Idle,
               committed = Some [\<lparr>col_file_path = ''docs/sub/b.txt'',
                                  col_file_extension = ''.txt'', col_content = [98]\<rparr>],
               script = [], trace = []\<rparr>)) = 1
   \<and> duplicate_count
     (process_directory ''docs''
        [\<lparr>entry_path = ''docs/a.txt'', entry_ext = ''.txt'',
          entry_node = \<lparr>open_first = Data [0x61], open_retry = Data [0x61],
                        fitz_open = Pdf_data_error\<rparr>\<rparr>,
         \<lparr>entry_path = ''docs/sub/b.txt'', entry_ext = ''.txt'',
          entry_node = \<lparr>open_first = Data [0x62], open_retry = Data [0x62],
                        fitz_open = Pdf_data_error\<rparr>\<rparr>]
        (db_conn
           (process_directory ''docs''
              [\<lparr>entry_path = ''docs/a.txt'', entry_ext = ''.txt'',
                entry_node = \<lparr>open_first = Data [0x61], open_retry = Data [0x61],
                              fitz_open = Pdf_data_error\<rparr>\<rparr>,
               \<lparr>entry_path = ''docs/sub/b.txt'', entry_ext = ''.txt'',
                entry_node = \<lparr>open_first = Data [0x62], open_retry = Data [0x62],
                              fitz_open = Pdf_data_error\<rparr>\<rparr>]
              (Some \<lparr>closed = False, txn = Idle,
                     committed = Some [\<lparr>col_file_path = ''docs/sub/b.txt'',
                                        col_file_extension = ''.txt'', col_content = [98]\<rparr>],
                     script = [], trace = []\<rparr>)))) = 2"
  by (simp add: process_directory_def process_file_def extract_by_extension_def
      extract_text_from_txt_def open_read_def utf8_decode_def
      SUPPORTED_EXTENSIONS_def insert_file_data_def cursor_def execute_def commit_def
      rollback_def rollback_and_fail_def insert_on_conflict_do_nothing_def next_fault_def
      view_def Let_def)

text \<open>
  C6, amended. On a connection in working order (open, idle, no failure of the store
  during the two runs), ingesting the same directory twice with the same file contents
  and extraction outcomes leaves the stored records after the second run as they were
  after the first; the second run inserts nothing; its duplicate counter is the sum of
  the inserted and the duplicate counter of the first run, hence the inserted counter
  of the first run when that run met no duplicate; the error and skipped counters of
  the two runs agree.
\<close>

theorem reingestion_idempotent:
  assumes "healthy c"
    and "first = process_directory d walk (Some c)"
    and "second = process_directory d walk (db_conn first)"
  shows "map_option committed (db_conn second) = map_option committed (db_conn first)
     \<and> processed_count second = 0
     \<and> duplicate_count second = processed_count first + duplicate_count first
     \<and> (duplicate_count first = 0 \<longrightarrow> duplicate_count second = processed_count first)
     \<and> error_count second = error_count first
     \<and> skipped_count second = skipped_count first"
proof -
  define st0 where "st0 =
    \<lparr>db_conn = Some c, processed_count = 0, skipped_count = 0, error_count = 0,
     duplicate_count = 0,
     logged = [(INFO, ''Starting processing directory: '' @ d)]\<rparr>"
  have f: "first = process_files walk st0"
    using assms(2) by (simp add: process_directory_def st0_def)
  have ok0: "conn_ok st0"
    using assms(1) by (simp add: conn_ok_def st0_def)
  note run1 = process_files_run [OF ok0, of walk]
  from run1 f have ok1: "conn_ok first" by simp
  then obtain c1 where c1: "db_conn first = Some c1"
    by (cases "db_conn first") (auto simp: conn_ok_def)
  define st1 where "st1 =
    \<lparr>db_conn = Some c1, processed_count = 0, skipped_count = 0, error_count = 0,
     duplicate_count = 0,
     logged = [(INFO, ''Starting processing directory: '' @ d)]\<rparr>"
  have s: "second = process_files walk st1"
    using assms(3) c1 by (simp add: process_directory_def st1_def)
  have ok1': "conn_ok st1"
    using ok1 c1 by (simp add: conn_ok_def st1_def)
  have paths1: "stored_paths st1 = stored_paths first"
    using c1 by (simp add: stored_paths_def st1_def)
  have store1: "store_of st1 = store_of first"
    using c1 by (simp add: store_of_def st1_def)
  from run1 f have "entry_path ` {e \<in> set walk. has_text e} \<subseteq> stored_paths first"
    by auto
  with paths1 have all: "\<forall>e \<in> set walk. has_text e \<longrightarrow> entry_path e \<in> stored_paths st1"
    by auto
  note run2 = process_files_run [OF ok1', of walk]
  note same = process_files_all_stored [OF ok1' all]
  have a: "map_option committed (db_conn second) = map_option committed (db_conn first)"
    using same s store1 by (simp add: store_of_def)
  have b: "processed_count second = 0"
    using same s by (simp add: st1_def)
  have cnt1: "processed_count first + duplicate_count first = length (filter has_text walk)"
    using run1 f by (simp add: st0_def)
  have cnt2: "processed_count second + duplicate_count second = length (filter has_text walk)"
    using run2 s by (simp add: st1_def)
  have e: "error_count second = error_count first"
    using run1 run2 f s by (simp add: st0_def st1_def)
  have k: "skipped_count second = skipped_count first"
    using run1 run2 f s by (simp add: st0_def st1_def)
  from a b cnt1 cnt2 e k show ?thesis by simp
qed

text \<open>A text file and a protected PDF, ingested twice into an empty table.\<close>

theorem reingestion_idempotent_witness:
  "healthy \<lparr>closed = False, txn = Idle, committed = Some [], script = [], trace = []\<rparr>
   \<and> processed_count
       (process_directory ''docs''
          [\<lparr>entry_path = ''docs/a.txt'', entry_ext = ''.txt'',
            entry_node = \<lparr>open_first = Data [0x61], open_retry = Data [0x61],
                          fitz_open = Pdf_data_error\<rparr>\<rparr>,
           \<lparr>entry_path = ''docs/b.pdf'', entry_ext = ''.pdf'',
            entry_node = \<lparr>open_first = Data [], open_retry = Data [],
                          fitz_open = Pdf_doc \<lparr>is_encrypted = True,
                            authenticate_empty = False, pages = []\<rparr>\<rparr>\<rparr>]
          (Some \<lparr>closed = False, txn = Idle, committed = Some [], script = [],
                 trace = []\<rparr>)) = 1
   \<and> duplicate_count
       (process_directory ''docs''
          [\<lparr>entry_path = ''docs/a.txt'', entry_ext = ''.txt'',
            entry_node = \<lparr>open_first = Data [0x61], open_retry = Data [0x61],
                          fitz_open = Pdf_data_error\<rparr>\<rparr>,
           \<lparr>entry_path = ''docs/b.pdf'', entry_ext = ''.pdf'',
            entry_node = \<lparr>open_first = Data [], open_retry = Data [],
                          fitz_open = Pdf_doc \<lparr>is_encrypted = True,
                            authenticate_empty = False, pages = []\<rparr>\<rparr>\<rparr>]
          (db_conn
             (process_directory ''docs''
                [\<lparr>entry_path = ''docs/a.txt'', entry_ext = ''.txt'',
                  entry_node = \<lparr>open_first = Data [0x61], open_retry = Data [0x61],
                                fitz_open = Pdf_data_error\<rparr>\<rparr>,
                 \<lparr>entry_path = ''docs/b.pdf'', entry_ext = ''.pdf'',
                  entry_node = \<lparr>open_first = Data [], open_retry = Data [],
                                fitz_open = Pdf_doc \<lparr>is_encrypted = True,
                                  authenticate_empty = False, pages = []\<rparr>\<rparr>\<rparr>]
                (Some \<lparr>closed = False, txn = Idle, committed = Some [], script = [],
                       trace = []\<rparr>)))) = 1"
proof -
  have h: "healthy \<lparr>closed = False, txn = Idle, committed = Some [], script = [], trace = []\<rparr>"
    by (simp add: healthy_def)
  have first: "processed_count
       (process_directory ''docs''
          [\<lparr>entry_path = ''docs/a.txt'', entry_ext = ''.txt'',
            entry_node = \<lparr>open_first = Data [0x61], open_retry = Data [0x61],
                          fitz_open = Pdf_data_error\<rparr>\<rparr>,
           \<lparr>entry_path = ''docs/b.pdf'', entry_ext = ''.pdf'',
            entry_node = \<lparr>open_first = Data [], open_retry = Data [],
                          fitz_open = Pdf_doc \<lparr>is_encrypted = True,
                            authenticate_empty = False, pages = []\<rparr>\<rparr>\<rparr>]
          (Some \<lparr>closed = False, txn = Idle, committed = Some [], script = [],
                 trace = []\<rparr>)) = 1
     \<and> duplicate_count
       (process_directory ''docs''
          [\<lparr>entry_path = ''docs/a.txt'', entry_ext = ''.txt'',
            entry_node = \<lparr>open_first = Data [0x61], open_retry = Data [0x61],
                          fitz_open = Pdf_data_error\<rparr>\<rparr>,
           \<lparr>entry_path = ''docs/b.pdf'', entry_ext = ''.pdf'',
            entry_node = \<lparr>open_first = Data [], open_retry = Data [],
                          fitz_open = Pdf_doc \<lparr>is_encrypted = True,
                            authenticate_empty = False, pages = []\<rparr>\<rparr>\<rparr>]
          (Some \<lparr>closed = False, txn = Idle, committed = Some [], script = [],
                 trace = []\<rparr>)) = 0"
    by (simp add: process_directory_def process_file_def extract_by_extension_def
      extract_text_from_txt_def extract_text_from_pdf_def open_read_def utf8_decode_def
      SUPPORTED_EXTENSIONS_def insert_file_data_def cursor_def execute_def commit_def
      rollback_def rollback_and_fail_def insert_on_conflict_do_nothing_def next_fault_def
      view_def Let_def)
  from reingestion_idempotent [OF h refl refl, of "''docs''"
          "[\<lparr>entry_path = ''docs/a.txt'', entry_ext = ''.txt'',
            entry_node = \<lparr>open_first = Data [0x61], open_retry = Data [0x61],
                          fitz_open = Pdf_data_error\<rparr>\<rparr>,
           \<lparr>entry_path = ''docs/b.pdf'', entry_ext = ''.pdf'',
            entry_node = \<lparr>open_first = Data [], open_retry = Data [],
                          fitz_open = Pdf_doc \<lparr>is_encrypted = True,
                            authenticate_empty = False, pages = []\<rparr>\<rparr>\<rparr>]"]
    first h
  show ?thesis by simp
qed

section \<open>Properties of search\<close>

text \<open>
  C7. An empty query string is rejected with the empty list, whatever the connection
  (none, closed, aborted, open) and the language selector: the connection comes back
  as it was, with no statement added to its trace.
\<close>

theorem empty_query_rejected:
  "search_documents eng conn [] language limit
   = (Some [], conn, [(WARNING, ''Search query cannot be empty.'')])"
  by (simp add: search_documents_def)

text \<open>
  C8. A language selector outside \<open>english\<close>, \<open>russian\<close>, \<open>both\<close>, \<open>simple\<close> is
  rejected: the result does not depend on the engine, the connection comes back as it
  was (no statement in its trace), no statement is built for such a selector, and the
  caller gets \<open>None\<close> with the error record naming the selector (the empty list and
  the warning of the empty query when the query is empty as well).
\<close>

theorem unsupported_language_rejected:
  "language \<notin> valid_languages \<Longrightarrow>
     search_documents eng conn query_string language limit
       = (if query_string = []
          then (Some [], conn, [(WARNING, ''Search query cannot be empty.'')])
          else (None, conn, [(ERROR, ''Invalid language specified: '' @ language)]))
     \<and> build_query language query_string limit = None"
  by (auto simp add: search_documents_def build_query_def valid_languages_def)

theorem unsupported_language_rejected_witness:
  "''german'' \<notin> valid_languages
   \<and> search_documents toy_engine
       (Some \<lparr>closed = False, txn = Idle, committed = Some [], script = [], trace = []\<rparr>)
       ''hello'' ''german'' 10
     = (None,
        Some \<lparr>closed = False, txn = Idle, committed = Some [], script = [], trace = []\<rparr>,
        [(ERROR, ''Invalid language specified: german'')])"
proof -
  have h: "''german'' \<notin> valid_languages"
    by (simp add: valid_languages_def)
  from unsupported_language_rejected [OF h, of toy_engine
      "Some \<lparr>closed = False, txn = Idle, committed = Some [], script = [], trace = []\<rparr>"
      "''hello''" 10] h
  show ?thesis by simp
qed

text \<open>
  C9, as stated, fails in its last part: the command line never shows an empty query
  as \<open>No results found\<close>. \<open>args.query\<close> is tested for truth, so \<open>-q ""\<close> is no query
  at all and the interactive mode is entered; there an empty line is skipped by
  \<open>continue\<close>. With \<open>-q ""\<close> and then one empty line on standard input, the output
  is the two banners, two prompts, and the closing lines.
\<close>

theorem cli_empty_query_not_presented:
  "main toy_engine
     (Some \<lparr>closed = False, txn = Idle, committed = Some [], script = [], trace = []\<rparr>)
     None
     \<lparr>arg_setup = False, arg_query = Some [], arg_lang = ''english'', arg_limit = 10\<rparr>
     [Line [], EOF]
   = (Returned,
      [Entering_interactive, Using_configurations, Prompt_query, Prompt_query, Empty_line,
       Exiting_interactive],
      Some \<lparr>closed = True, txn = Idle, committed = Some [], script = [], trace = []\<rparr>)"
  by (simp add: main_def given_query_def close_conn_def)

text \<open>
  C9, amended. \<open>search_documents\<close> returns the empty list for the empty query as it
  does for a search whose statement selects no record; for an unsupported selector
  (with a query that is not empty) and when the statement fails it returns \<open>None\<close>.
  \<open>present\<close> prints \<open>No results found\<close> for the empty list and the error line for
  \<open>None\<close>. But the command line passes no empty query to \<open>search_documents\<close>: an
  empty \<open>args.query\<close> is treated as an absent one, and the interactive loop prompts
  again after an empty line.
\<close>

theorem empty_query_and_cli:
  "fst (search_documents eng conn [] language limit) = Some []
   \<and> (query_string \<noteq> [] \<and> language \<in> valid_languages \<and> \<not> closed c
       \<and> build_query language query_string limit = Some stmt
       \<and> execute stmt (select_sem eng stmt) c = (Inr [], c')
      \<longrightarrow> fst (search_documents eng (Some c) query_string language limit) = Some [])
   \<and> (query_string \<noteq> [] \<and> language \<notin> valid_languages
      \<longrightarrow> fst (search_documents eng conn query_string language limit) = None)
   \<and> (query_string \<noteq> [] \<and> language \<in> valid_languages
       \<and> build_query language query_string limit = Some stmt
       \<and> execute stmt (select_sem eng stmt) c = (Inl e, c')
      \<longrightarrow> fst (search_documents eng (Some c) query_string language limit) = None)
   \<and> present (Some ([] :: 'r result_row list)) = [No_results_found]
   \<and> present (None :: 'r result_row list option) = [Search_error]
   \<and> main eng conn sql_file (args\<lparr>arg_query := Some []\<rparr>) stdin
       = main eng conn sql_file (args\<lparr>arg_query := None\<rparr>) stdin
   \<and> interactive eng conn limit (Line [] # rest)
       = (Prompt_query # fst (interactive eng conn limit rest),
          snd (interactive eng conn limit rest))"
  for eng :: "('v, 'q, 'r::{linorder,plus,zero}) fts_engine"
proof -
  have a: "fst (search_documents eng conn [] language limit) = Some []"
    by (simp add: search_documents_def)
  have b: "fst (search_documents eng (Some c) query_string language limit) = Some []"
    if "query_string \<noteq> []" "language \<in> valid_languages" "\<not> closed c"
      "build_query language query_string limit = Some stmt"
      "execute stmt (select_sem eng stmt) c = (Inr [], c')"
    using that by (simp add: search_documents_def cursor_def)
  have n: "fst (search_documents eng conn query_string language limit) = None"
    if "query_string \<noteq> []" "language \<notin> valid_languages"
    using that by (simp add: search_documents_def)
  have d: "fst (search_documents eng (Some c) query_string language limit) = None"
    if "query_string \<noteq> []" "language \<in> valid_languages"
      "build_query language query_string limit = Some stmt"
      "execute stmt (select_sem eng stmt) c = (Inl e, c')"
    using that by (simp add: search_documents_def cursor_def)
  have p: "present (Some ([] :: 'r result_row list)) = [No_results_found]
     \<and> present (None :: 'r result_row list option) = [Search_error]"
    by (simp add: present_def)
  have m: "main eng conn sql_file (args\<lparr>arg_query := Some []\<rparr>) stdin
       = main eng conn sql_file (args\<lparr>arg_query := None\<rparr>) stdin"
    by (simp add: main_def given_query_def
        split: option.splits prod.splits sum.splits bool.splits)
  have i: "interactive eng conn limit (Line [] # rest)
       = (Prompt_query # fst (interactive eng conn limit rest),
          snd (interactive eng conn limit rest))"
    by (simp add: case_prod_beta)
  from a b n d p m i show ?thesis by blast
qed

text \<open>A query for a word no stored record has, and an unsupported selector.\<close>

theorem empty_query_and_cli_witness:
  "build_query ''simple'' ''zebra'' 10
     = Some (Select_single ''content_tsv_simple'' FTS_CONFIG_SIMPLE ''zebra'' 10)
   \<and> fst (execute (Select_single ''content_tsv_simple'' FTS_CONFIG_SIMPLE ''zebra'' 10)
            (select_sem toy_engine
               (Select_single ''content_tsv_simple'' FTS_CONFIG_SIMPLE ''zebra'' 10))
            \<lparr>closed = False, txn = Idle,
              committed = Some [\<lparr>col_file_path = ''docs/a.txt'',
                                 col_file_extension = ''.txt'', col_content = [104, 105]\<rparr>],
              script = [], trace = []\<rparr>) = Inr []
   \<and> fst (search_documents toy_engine
            (Some \<lparr>closed = False, txn = Idle,
                   committed = Some [\<lparr>col_file_path = ''docs/a.txt'',
                                      col_file_extension = ''.txt'',
                                      col_content = [104, 105]\<rparr>],
                   script = [], trace = []\<rparr>)
            ''zebra'' ''simple'' 10) = Some []
   \<and> fst (search_documents toy_engine None ''zebra'' ''german'' 10) = None"
proof -
  let ?c = "\<lparr>closed = False, txn = Idle,
              committed = Some [\<lparr>col_file_path = ''docs/a.txt'',
                                 col_file_extension = ''.txt'', col_content = [104, 105]\<rparr>],
              script = [], trace = []\<rparr>"
  let ?stmt = "Select_single ''content_tsv_simple'' FTS_CONFIG_SIMPLE ''zebra'' 10"
  have bq: "build_query ''simple'' ''zebra'' 10 = Some ?stmt"
    by (simp add: build_query_def)
  obtain r c' where ex: "execute ?stmt (select_sem toy_engine ?stmt) ?c = (r, c')"
    by (cases "execute ?stmt (select_sem toy_engine ?stmt) ?c") auto
  have "fst (execute ?stmt (select_sem toy_engine ?stmt) ?c) = Inr []"
    by (simp add: execute_def next_fault_def view_def select_sem_def
        order_by_rank_desc_limit_def select_single_rows_def toy_engine_def
        FTS_CONFIG_SIMPLE_def List.map_filter_simps Let_def)
  with ex have r: "r = Inr []" by simp
  have v: "''simple'' \<in> valid_languages" "''german'' \<notin> valid_languages"
    by (simp_all add: valid_languages_def)
  have q: "''zebra'' \<noteq> []" by simp
  have o: "\<not> closed ?c" by simp
  from empty_query_and_cli
    [where eng = toy_engine and query_string = "''zebra''" and language = "''simple''"
       and c = ?c and limit = 10 and stmt = ?stmt and c' = c']
    q v(1) o bq ex r
  have one: "fst (search_documents toy_engine (Some ?c) ''zebra'' ''simple'' 10) = Some []"
    by blast
  from empty_query_and_cli
    [where eng = toy_engine and query_string = "''zebra''" and language = "''german''"
       and conn = None and limit = 10]
    q v(2)
  have two: "fst (search_documents toy_engine None ''zebra'' ''german'' 10) = None"
    by blast
  from bq ex r one two show ?thesis by simp
qed

lemma both_row_rank:
  fixes eng :: "('v, 'q, 'r::monoid_add) fts_engine"
  assumes "\<forall>v q. \<not> ts_match eng q v \<longrightarrow> ts_rank_cd eng v q = 0"
  shows "res_rank (both_row eng query_string row)
         = spec_language_score eng ''content_tsv_en'' FTS_CONFIG_EN query_string row
           + spec_language_score eng ''content_tsv_ru'' FTS_CONFIG_RU query_string row"
  using assms
  by (simp add: both_row_def spec_language_score_def column_rank_def coalesce_def Let_def
      split: option.splits)

lemma spec_language_score_no_match:
  "\<not> column_match eng col (plainto_tsquery eng cfg query_string) row
   \<Longrightarrow> spec_language_score eng col cfg query_string row = 0"
  by (simp add: spec_language_score_def column_match_def split: option.splits)

lemma both_search:
  fixes eng :: "('v, 'q, 'r::{linorder,monoid_add}) fts_engine"
  assumes "\<not> closed c" "txn c \<noteq> InError" "next_fault c = None" "view c = Some rows"
    "0 \<le> limit" "query_string \<noteq> []"
  shows "fst (search_documents eng (Some c) query_string ''both'' limit)
         = Some (take (nat limit) (rev (sort_key res_rank
              (map (both_row eng query_string) (filter (both_where eng query_string) rows)))))"
  using assms
  by (simp add: search_documents_def valid_languages_def cursor_def build_query_def
      execute_def select_sem_def order_by_rank_desc_limit_def select_both_rows_def Let_def)

lemma single_rank:
  fixes eng :: "('v, 'q, 'r::zero) fts_engine"
  assumes "r \<in> set (select_single_rows eng col cfg query_string rows)"
  shows "\<exists>row \<in> set rows. res_file_path r = col_file_path row
           \<and> res_rank r = spec_language_score eng col cfg query_string row
           \<and> column_match eng col (plainto_tsquery eng cfg query_string) row"
  using assms
  by (auto simp add: select_single_rows_def List.map_filter_def spec_language_score_def
      column_match_def Let_def split: option.splits if_splits)

text \<open>
  C3. The combined mode, on a connection that runs the statement, with the engine's
  rank of a record that does not match being zero (as for \<open>ts_rank_cd\<close>, which adds up
  the covers of the query in the document). The result of \<open>search_documents\<close> is made
  of the records of a supported extension of which the English or the Russian
  representation matches, ordered by rank and cut at the limit (all of them when the
  limit is not below the number of records). For every record the rank is the sum of
  the English and the Russian relevance score, a language that does not match counting
  zero, so that a record matching one language only has the score of that language;
  these scores are the ranks the single-language statements report; and the headline is
  computed with the English configuration and the English query.
\<close>

theorem combined_mode_search:
  fixes eng :: "('v, 'q, 'r::{linorder,monoid_add}) fts_engine"
  assumes "\<forall>v q. \<not> ts_match eng q v \<longrightarrow> ts_rank_cd eng v q = 0"
    and "\<not> closed c" "txn c \<noteq> InError" "next_fault c = None" "view c = Some rows"
    and "0 \<le> limit" "query_string \<noteq> []"
  shows "fst (search_documents eng (Some c) query_string ''both'' limit)
         = Some (take (nat limit) (rev (sort_key res_rank
              (map (both_row eng query_string) (filter (both_where eng query_string) rows)))))
     \<and> (length rows \<le> nat limit \<longrightarrow>
          (\<exists>rs. fst (search_documents eng (Some c) query_string ''both'' limit) = Some rs
             \<and> set rs = both_row eng query_string
                          ` {row \<in> set rows. both_where eng query_string row}))
     \<and> (\<forall>row. both_where eng query_string row
           \<longleftrightarrow> (column_match eng ''content_tsv_en''
                   (plainto_tsquery eng FTS_CONFIG_EN query_string) row
                \<or> column_match eng ''content_tsv_ru''
                     (plainto_tsquery eng FTS_CONFIG_RU query_string) row)
               \<and> col_file_extension row \<in> SUPPORTED_EXTENSIONS)
     \<and> (\<forall>row. res_file_path (both_row eng query_string row) = col_file_path row
           \<and> res_rank (both_row eng query_string row)
               = spec_language_score eng ''content_tsv_en'' FTS_CONFIG_EN query_string row
                 + spec_language_score eng ''content_tsv_ru'' FTS_CONFIG_RU query_string row
           \<and> (\<not> column_match eng ''content_tsv_ru''
                   (plainto_tsquery eng FTS_CONFIG_RU query_string) row
               \<longrightarrow> res_rank (both_row eng query_string row)
                   = spec_language_score eng ''content_tsv_en'' FTS_CONFIG_EN query_string row)
           \<and> (\<not> column_match eng ''content_tsv_en''
                   (plainto_tsquery eng FTS_CONFIG_EN query_string) row
               \<longrightarrow> res_rank (both_row eng query_string row)
                   = spec_language_score eng ''content_tsv_ru'' FTS_CONFIG_RU query_string row)
           \<and> res_headline (both_row eng query_string row)
               = ts_headline eng FTS_CONFIG_EN (col_content row)
                   (plainto_tsquery eng FTS_CONFIG_EN query_string) HEADLINE_OPTIONS)
     \<and> (\<forall>col cfg. \<forall>r \<in> set (select_single_rows eng col cfg query_string rows).
           \<exists>row \<in> set rows. res_file_path r = col_file_path row
              \<and> res_rank r = spec_language_score eng col cfg query_string row
              \<and> column_match eng col (plainto_tsquery eng cfg query_string) row)"
proof -
  note res = both_search [OF assms(2-7), of eng]
  have all: "\<exists>rs. fst (search_documents eng (Some c) query_string ''both'' limit) = Some rs
             \<and> set rs = both_row eng query_string
                          ` {row \<in> set rows. both_where eng query_string row}"
    if "length rows \<le> nat limit"
  proof -
    have "length (rev (sort_key res_rank
              (map (both_row eng query_string) (filter (both_where eng query_string) rows))))
          \<le> length rows"
      by simp
    with that have "take (nat limit) (rev (sort_key res_rank
              (map (both_row eng query_string) (filter (both_where eng query_string) rows))))
        = rev (sort_key res_rank
              (map (both_row eng query_string) (filter (both_where eng query_string) rows)))"
      by (intro take_all) linarith
    with res show ?thesis by auto
  qed
  have wh: "both_where eng query_string row
           \<longleftrightarrow> (column_match eng ''content_tsv_en''
                   (plainto_tsquery eng FTS_CONFIG_EN query_string) row
                \<or> column_match eng ''content_tsv_ru''
                     (plainto_tsquery eng FTS_CONFIG_RU query_string) row)
               \<and> col_file_extension row \<in> SUPPORTED_EXTENSIONS" for row
    by (simp add: both_where_def Let_def)
  note rk = both_row_rank [OF assms(1)]
  have row: "res_file_path (both_row eng query_string row) = col_file_path row
           \<and> res_rank (both_row eng query_string row)
               = spec_language_score eng ''content_tsv_en'' FTS_CONFIG_EN query_string row
                 + spec_language_score eng ''content_tsv_ru'' FTS_CONFIG_RU query_string row
           \<and> (\<not> column_match eng ''content_tsv_ru''
                   (plainto_tsquery eng FTS_CONFIG_RU query_string) row
               \<longrightarrow> res_rank (both_row eng query_string row)
                   = spec_language_score eng ''content_tsv_en'' FTS_CONFIG_EN query_string row)
           \<and> (\<not> column_match eng ''content_tsv_en''
                   (plainto_tsquery eng FTS_CONFIG_EN query_string) row
               \<longrightarrow> res_rank (both_row eng query_string row)
                   = spec_language_score eng ''content_tsv_ru'' FTS_CONFIG_RU query_string row)
           \<and> res_headline (both_row eng query_string row)
               = ts_headline eng FTS_CONFIG_EN (col_content row)
                   (plainto_tsquery eng FTS_CONFIG_EN query_string) HEADLINE_OPTIONS" for row
  proof -
    have p: "res_file_path (both_row eng query_string row) = col_file_path row"
      by (simp add: both_row_def Let_def)
    have h: "res_headline (both_row eng query_string row)
               = ts_headline eng FTS_CONFIG_EN (col_content row)
                   (plainto_tsquery eng FTS_CONFIG_EN query_string) HEADLINE_OPTIONS"
      by (simp add: both_row_def Let_def)
    have en: "res_rank (both_row eng query_string row)
                   = spec_language_score eng ''content_tsv_en'' FTS_CONFIG_EN query_string row"
      if "\<not> column_match eng ''content_tsv_ru''
                   (plainto_tsquery eng FTS_CONFIG_RU query_string) row"
      using rk [of query_string row] spec_language_score_no_match [OF that] by simp
    have ru: "res_rank (both_row eng query_string row)
                   = spec_language_score eng ''content_tsv_ru'' FTS_CONFIG_RU query_string row"
      if "\<not> column_match eng ''content_tsv_en''
                   (plainto_tsquery eng FTS_CONFIG_EN query_string) row"
      using rk [of query_string row] spec_language_score_no_match [OF that] by simp
    from p h en ru rk [of query_string row] show ?thesis by blast
  qed
  have single: "\<forall>col cfg. \<forall>r \<in> set (select_single_rows eng col cfg query_string rows).
           \<exists>row \<in> set rows. res_file_path r = col_file_path row
              \<and> res_rank r = spec_language_score eng col cfg query_string row
              \<and> column_match eng col (plainto_tsquery eng cfg query_string) row"
    using single_rank by blast
  from res all wh row single show ?thesis by blast
qed

text \<open>
  The small engine gives rank zero to what does not match. Three stored records and
  the query \<open>hi\<close>, which has no Russian part: \<open>docs/a.txt\<close>
  (\<open>hi hi\<close>) and \<open>docs/c.md\<close> (\<open>hi md\<close>) match in English only and are found with their
  English scores 2 and 1; \<open>docs/b.txt\<close> (\<open>yo\<close>) is not.
\<close>

theorem combined_mode_search_witness:
  "fst (search_documents toy_engine
            (Some \<lparr>closed = False, txn = Idle,
                   committed = Some
                     [\<lparr>col_file_path = ''docs/c.md'', col_file_extension = ''.md'',
                       col_content = [104, 105, 32, 109, 100]\<rparr>,
                      \<lparr>col_file_path = ''docs/b.txt'', col_file_extension = ''.txt'',
                       col_content = [121, 111]\<rparr>,
                      \<lparr>col_file_path = ''docs/a.txt'', col_file_extension = ''.txt'',
                       col_content = [104, 105, 32, 104, 105]\<rparr>],
                   script = [], trace = []\<rparr>)
            ''hi'' ''both'' 10)
     = Some [\<lparr>res_file_path = ''docs/a.txt'', res_rank = 2,
              res_headline = [104, 105, 32, 104, 105]\<rparr>,
             \<lparr>res_file_path = ''docs/c.md'', res_rank = 1,
              res_headline = [104, 105, 32, 109, 100]\<rparr>]"
proof -
  let ?rows = "[\<lparr>col_file_path = ''docs/c.md'', col_file_extension = ''.md'',
                       col_content = [104, 105, 32, 109, 100]\<rparr>,
                      \<lparr>col_file_path = ''docs/b.txt'', col_file_extension = ''.txt'',
                       col_content = [121, 111]\<rparr>,
                      \<lparr>col_file_path = ''docs/a.txt'', col_file_extension = ''.txt'',
                       col_content = [104, 105, 32, 104, 105]\<rparr>]"
  let ?c = "\<lparr>closed = False, txn = Idle, committed = Some ?rows, script = [], trace = []\<rparr>"
  have e: "\<forall>v q. \<not> ts_match toy_engine q v \<longrightarrow> ts_rank_cd toy_engine v q = 0"
    by (simp add: toy_engine_def)
  have h: "\<not> closed ?c" "txn ?c \<noteq> InError" "next_fault ?c = None" "view ?c = Some ?rows"
    "(0::int) \<le> 10" "''hi'' \<noteq> []"
    by (simp_all add: next_fault_def view_def)
  from combined_mode_search [OF e h]
  have "fst (search_documents toy_engine (Some ?c) ''hi'' ''both'' 10)
         = Some (take (nat 10) (rev (sort_key res_rank
              (map (both_row toy_engine ''hi'') (filter (both_where toy_engine ''hi'') ?rows)))))"
    by blast
  also have "\<dots> = Some [\<lparr>res_file_path = ''docs/a.txt'', res_rank = 2,
              res_headline = [104, 105, 32, 104, 105]\<rparr>,
             \<lparr>res_file_path = ''docs/c.md'', res_rank = 1,
              res_headline = [104, 105, 32, 109, 100]\<rparr>]"
    by (simp add: both_row_def both_where_def column_match_def column_rank_def coalesce_def
        toy_engine_def FTS_CONFIG_EN_def FTS_CONFIG_RU_def SUPPORTED_EXTENSIONS_def
        ascii_word_def Let_def)
  finally show ?thesis .
qed

end
